theory Spec2Isabelle
  imports Main "HOL-Library.Sublist"
begin

section \<open>Bytes, strings and the C++ library calls the two engines use\<close>

text \<open>
  A \<open>std::string\<close> is a list of bytes (\<open>string\<close>). The three control bytes the
  programs depend on are named; a \<open>"\r\n"\<close> of the source is \<open>CRLF\<close>.
\<close>

definition NUL :: char where
  "NUL = CHR 0x00"

definition CR :: char where
  "CR = CHR 0x0D"

definition LF :: char where
  "LF = CHR 0x0A"

definition CRLF :: string where
  "CRLF = [CR, LF]"

text \<open>
  A raw string literal \<open>R"(...)"\<close> that spans several source lines holds those lines
  separated by one line feed each, with no line feed after the last one.
\<close>

fun raw_lines :: "string list \<Rightarrow> string" where
  "raw_lines [] = []"
| "raw_lines [l] = l"
| "raw_lines (l # m # ls) = l @ LF # raw_lines (m # ls)"

text \<open>\<open>std::isspace\<close> in the classic locale, which \<open>operator>>\<close> uses to delimit tokens.\<close>

definition isspace :: "char \<Rightarrow> bool" where
  "isspace c = (c = CHR 0x20 \<or> c = CHR 0x09 \<or> c = CHR 0x0A \<or> c = CHR 0x0B \<or> c = CHR 0x0C \<or> c = CHR 0x0D)"

text \<open>
  \<open>stream >> token\<close> on a string stream: skip leading white space, then take bytes up to
  the next white space. The result is the token and the unread rest of the stream. When
  the stream is exhausted the token stays empty, and so does every later one.
\<close>

definition extract_token :: "string \<Rightarrow> string \<times> string" where
  "extract_token s = (let s' = dropWhile isspace s
                      in (takeWhile (\<lambda>c. \<not> isspace c) s', dropWhile (\<lambda>c. \<not> isspace c) s'))"

text \<open>\<open>stream << n\<close> for an unsigned number: its decimal digits.\<close>

fun show_nat :: "nat \<Rightarrow> string" where
  "show_nat n = (if n < 10 then [''0123456789'' ! n]
                 else show_nat (n div 10) @ [''0123456789'' ! (n mod 10)])"

text \<open>
  \<open>s.find(pat)\<close>: the index of the first occurrence of \<open>pat\<close> in \<open>s\<close>, and \<open>None\<close> for
  \<open>std::string::npos\<close>.
\<close>

fun starts_with :: "string \<Rightarrow> string \<Rightarrow> bool" where
  "starts_with s [] = True"
| "starts_with [] (p # ps) = False"
| "starts_with (c # s) (p # ps) = (c = p \<and> starts_with s ps)"

fun find_from :: "string \<Rightarrow> string \<Rightarrow> nat \<Rightarrow> nat option" where
  "find_from [] pat i = (if pat = [] then Some i else None)"
| "find_from (c # s) pat i = (if starts_with (c # s) pat then Some i else find_from s pat (Suc i))"

definition find_str :: "string \<Rightarrow> string \<Rightarrow> nat option" where
  "find_str s pat = find_from s pat 0"

text \<open>\<open>std::string(const char*)\<close>: the bytes before the first zero byte of the array.\<close>

definition c_string :: "string \<Rightarrow> string" where
  "c_string buffer = takeWhile (\<lambda>c. c \<noteq> NUL) buffer"

subsection \<open>The socket and the clock\<close>

text \<open>
  What one \<open>read(2)\<close> on a client socket delivers: an error (the call returns \<open>-1\<close> and
  leaves the buffer alone), or the bytes that arrived (none at end of stream). The call
  stores at most \<open>count\<close> of them at the start of the buffer and returns how many.
\<close>

datatype read_result = ReadError | ReadData string

definition sys_read :: "read_result \<Rightarrow> string \<Rightarrow> nat \<Rightarrow> int \<times> string" where
  "sys_read r buffer count =
     (case r of
        ReadError \<Rightarrow> (- 1, buffer)
      | ReadData d \<Rightarrow>
          (let got = take count d
           in (int (length got), got @ drop (length got) buffer)))"

text \<open>
  What one \<open>send(fd, data, length, 0)\<close> on a client socket does: it returns the number of
  bytes taken, or it returns \<open>-1\<close>, or, on a connection that the peer has reset, it raises
  \<open>SIGPIPE\<close> and does not return. Neither engine looks at the value returned. Neither
  engine installs a handler for \<open>SIGPIPE\<close>, ignores it or passes \<open>MSG_NOSIGNAL\<close>, so the
  signal ends the process at the call.
\<close>

datatype send_result = SendOK | SendError | SendSigpipe

definition SIGPIPE :: int where
  "SIGPIPE = 13"

text \<open>\<open>char buffer[4096] = {0}\<close>\<close>

definition zero_buffer :: string where
  "zero_buffer = replicate 4096 NUL"

text \<open>
  The results of the set-up calls of \<open>main\<close>. \<open>socket\<close> returns a descriptor, or \<open>-1\<close>;
  a later call on a descriptor that is not open fails with \<open>-1\<close> whatever else holds
  (\<open>on_fd\<close>), and otherwise returns what the environment decides.
\<close>

record setup_env =
  socket_ret :: int
  setsockopt_ret :: int
  bind_ret :: int
  listen_ret :: int

definition on_fd :: "int \<Rightarrow> int \<Rightarrow> int" where
  "on_fd fd ret = (if fd < 0 then - 1 else ret)"

text \<open>
  What happens to the server after set-up, one entry per wake-up of the accept loop:
  a signal for which the handler is installed, or the return of \<open>accept\<close> (a negative
  descriptor is a failure) together with what \<open>read\<close> will deliver on that connection,
  what \<open>send\<close> will do on it, and the text \<open>ctime\<close> gives for the clock at that moment.
\<close>

datatype event = Signal int | Accept int read_result send_result string

text \<open>
  The globals \<open>running\<close> and \<open>server_fd\<close>, and the effects of a process that the claims
  observe: the two output streams, the data passed to \<open>send\<close> on each descriptor, the
  descriptors closed, and the signal that killed the process, if one did.
\<close>

record process =
  running :: bool
  server_fd :: int
  cout :: string
  cerr :: string
  sent :: "(int \<times> string) list"
  closed :: "int list"
  killed_by :: "int option"

text \<open>The state at program start: \<open>bool running = true; int server_fd;\<close>\<close>

definition initial :: process where
  "initial = \<lparr>running = True, server_fd = 0, cout = [], cerr = [], sent = [], closed = [],
              killed_by = None\<rparr>"

section \<open>Reporting Engine\<close>

text \<open>\<open>signalHandler\<close> ends in \<open>exit(0)\<close>: the exit status comes with the final state.\<close>

definition signalHandler_reporting :: "int \<Rightarrow> process \<Rightarrow> int \<times> process" where
  "signalHandler_reporting signum p =
     (let p = p\<lparr>cout := cout p @ [LF] @ ''Shutting down Reporting Engine...'' @ [LF]\<rparr>;
          p = p\<lparr>running := False\<rparr>;
          p = (if server_fd p > 0 then p\<lparr>closed := closed p @ [server_fd p]\<rparr> else p)
      in (0, p))"

definition health_json_reporting :: string where
  \<open>health_json_reporting = ''{"status":"healthy","service":"Reporting Engine","version":"1.0.0"}''\<close>

definition handleHealthCheck_reporting :: string where
  "handleHealthCheck_reporting =
     (let response = health_json_reporting
      in ''HTTP/1.1 200 OK'' @ CRLF
         @ ''Content-Type: application/json'' @ CRLF
         @ ''Content-Length: '' @ show_nat (length response) @ CRLF
         @ ''Access-Control-Allow-Origin: *'' @ CRLF
         @ CRLF
         @ response)"

definition root_json_reporting :: string where
  \<open>root_json_reporting = ''{"service":"Finance Reporting Engine","version":"1.0.0","status":"running","endpoints":{"/health":"Health check","/reports":"Generate reports"}}''\<close>

definition handleRootRequest_reporting :: string where
  "handleRootRequest_reporting =
     (let response = root_json_reporting
      in ''HTTP/1.1 200 OK'' @ CRLF
         @ ''Content-Type: application/json'' @ CRLF
         @ ''Content-Length: '' @ show_nat (length response) @ CRLF
         @ ''Access-Control-Allow-Origin: *'' @ CRLF
         @ CRLF
         @ response)"

text \<open>
  The body of the accept loop of \<open>main\<close> for one accepted connection, in three parts:
  the request string built from the buffer (the result of \<open>read\<close> is not looked at), the
  choice of the response, and the send and close. The response is passed to \<open>send\<close> whatever
  \<open>read\<close> returned; when \<open>send\<close> raises \<open>SIGPIPE\<close> the process is killed there, before the
  \<open>close\<close>.
\<close>

definition request_reporting :: "read_result \<Rightarrow> string" where
  "request_reporting r =
     (let buffer = zero_buffer;
          (bytes_read, buffer) = sys_read r buffer (4096 - 1)
      in c_string buffer)"

definition not_found_reporting :: string where
  "not_found_reporting = ''HTTP/1.1 404 Not Found'' @ CRLF @ ''Content-Length: 0'' @ CRLF @ CRLF"

definition route_reporting :: "string \<Rightarrow> string" where
  "route_reporting request =
     (if find_str request ''GET /health'' \<noteq> None then handleHealthCheck_reporting
      else if find_str request ''GET /'' \<noteq> None then handleRootRequest_reporting
      else not_found_reporting)"

definition serve_reporting :: "int \<Rightarrow> read_result \<Rightarrow> send_result \<Rightarrow> process \<Rightarrow> process" where
  "serve_reporting client_socket r so p =
     (let request = request_reporting r;
          response = route_reporting request;
          p = p\<lparr>sent := sent p @ [(client_socket, response)]\<rparr>
      in if so = SendSigpipe then p\<lparr>killed_by := Some SIGPIPE\<rparr>
         else p\<lparr>closed := closed p @ [client_socket]\<rparr>)"

text \<open>
  \<open>while (running) { ... }\<close> followed by \<open>return 0\<close>, run over the events that reach the
  process. The result is the exit status, or \<open>None\<close> when the process has none: the events
  are used up and the server is still blocked in \<open>accept\<close>, or the process was killed by a
  signal while it served a connection (\<open>killed_by\<close> then holds the signal, and the events
  that follow reach no one).
\<close>

fun accept_loop_reporting :: "event list \<Rightarrow> process \<Rightarrow> int option \<times> process" where
  "accept_loop_reporting [] p = (if running p then (None, p) else (Some 0, p))"
| "accept_loop_reporting (e # es) p =
     (if \<not> running p then (Some 0, p)
      else (case e of
              Signal signum \<Rightarrow>
                (let (status, p) = signalHandler_reporting signum p in (Some status, p))
            | Accept client_socket r so now \<Rightarrow>
                if client_socket < 0
                then accept_loop_reporting es
                       (if running p then p\<lparr>cerr := cerr p @ ''Accept failed'' @ [LF]\<rparr> else p)
                else (let p = serve_reporting client_socket r so p
                      in if killed_by p \<noteq> None then (None, p) else accept_loop_reporting es p)))"

text \<open>
  \<open>main\<close>: the set-up calls, each checked as the source checks it (the Reporting Engine
  does not look at the result of \<open>setsockopt\<close>), then the accept loop. \<open>return 1\<close> from
  \<open>main\<close> is the exit status 1.
\<close>

definition main_reporting :: "setup_env \<Rightarrow> event list \<Rightarrow> int option \<times> process" where
  "main_reporting env events =
     (let port = 8080;
          p = initial\<lparr>server_fd := socket_ret env\<rparr>
      in if server_fd p = 0
         then (Some 1, p\<lparr>cerr := cerr p @ ''Socket creation failed'' @ [LF]\<rparr>)
         else if on_fd (server_fd p) (bind_ret env) < 0
         then (Some 1, p\<lparr>cerr := cerr p @ ''Bind failed on port '' @ show_nat port @ [LF]\<rparr>)
         else if on_fd (server_fd p) (listen_ret env) < 0
         then (Some 1, p\<lparr>cerr := cerr p @ ''Listen failed'' @ [LF]\<rparr>)
         else accept_loop_reporting events
                (p\<lparr>cout := cout p @ ''Reporting Engine listening on port '' @ show_nat port @ [LF]\<rparr>))"

section \<open>Analytics Engine\<close>

definition signalHandler_analytics :: "int \<Rightarrow> process \<Rightarrow> int \<times> process" where
  "signalHandler_analytics signum p =
     (let p = p\<lparr>cout := cout p @ [LF] @ ''Shutting down Analytics Engine...'' @ [LF]\<rparr>;
          p = p\<lparr>running := False\<rparr>;
          p = (if server_fd p > 0 then p\<lparr>closed := closed p @ [server_fd p]\<rparr> else p)
      in (0, p))"

text \<open>
  \<open>getCurrentTimestamp\<close> reads the clock through \<open>ctime\<close>; its argument here is the text
  \<open>ctime\<close> returns for the present moment, from which a final line feed is removed.
\<close>

definition getCurrentTimestamp :: "string \<Rightarrow> string" where
  "getCurrentTimestamp dt =
     (let timestamp = dt
      in if timestamp \<noteq> [] \<and> last timestamp = LF then butlast timestamp else timestamp)"

text \<open>
  Each handler builds its JSON text (the local \<open>response\<close>, named here so that the claims
  can speak of it) and wraps it in the status line and headers.
\<close>

definition health_json_analytics :: "string \<Rightarrow> string" where
  \<open>health_json_analytics now =
     raw_lines
      [''{'',
       ''  "status": "healthy",'',
       ''  "service": "Analytics Engine",'',
       ''  "version": "1.0.0",'',
       ''  "timestamp": "'' @ getCurrentTimestamp now @ ''"'',
       ''}'']\<close>

definition handleHealthCheck_analytics :: "string \<Rightarrow> string" where
  "handleHealthCheck_analytics now =
     (let response = health_json_analytics now
      in ''HTTP/1.1 200 OK'' @ CRLF
         @ ''Content-Type: application/json'' @ CRLF
         @ ''Content-Length: '' @ show_nat (length response) @ CRLF
         @ ''Access-Control-Allow-Origin: *'' @ CRLF
         @ CRLF
         @ response)"

definition root_json_analytics :: string where
  \<open>root_json_analytics =
     raw_lines
      [''{'',
       ''  "service": "Finance Analytics Engine",'',
       ''  "version": "1.0.0",'',
       ''  "description": "High-performance C++ analytics engine for financial calculations",'',
       ''  "endpoints": {'',
       ''    "health": "GET /health",'',
       ''    "spending_analysis": "GET /spending-analysis",'',
       ''    "trends": "GET /trends",'',
       ''    "predictions": "GET /predictions"'',
       ''  },'',
       ''  "capabilities": ['',
       ''    "Real-time expense analysis",'',
       ''    "Trend detection",'',
       ''    "Statistical calculations",'',
       ''    "Predictive modeling"'',
       ''  ]'',
       ''}'']\<close>

definition handleRootRequest_analytics :: string where
  "handleRootRequest_analytics =
     (let response = root_json_analytics
      in ''HTTP/1.1 200 OK'' @ CRLF
         @ ''Content-Type: application/json'' @ CRLF
         @ ''Content-Length: '' @ show_nat (length response) @ CRLF
         @ ''Access-Control-Allow-Origin: *'' @ CRLF
         @ CRLF
         @ response)"

definition spending_analysis_json :: "string \<Rightarrow> string" where
  \<open>spending_analysis_json now =
     raw_lines
      [''{'',
       ''  "analysis": {'',
       ''    "total_expenses": 2847.32,'',
       ''    "average_daily_spending": 94.91,'',
       ''    "spending_trend": "increasing",'',
       ''    "top_categories": ['',
       ''      {"category": "Food & Dining", "amount": 856.23, "percentage": 30.1},'',
       ''      {"category": "Transportation", "amount": 445.67, "percentage": 15.6},'',
       ''      {"category": "Shopping", "amount": 398.12, "percentage": 14.0}'',
       ''    ],'',
       ''    "insights": ['',
       ''      "Spending increased by 12% compared to last month",'',
       ''      "Food expenses are above average",'',
       ''      "Transportation costs are stable"'',
       ''    ]'',
       ''  },'',
       ''  "generated_at": "'' @ getCurrentTimestamp now @ ''",'',
       ''  "engine": "Analytics Engine v1.0"'',
       ''}'']\<close>

definition handleSpendingAnalysis :: "string \<Rightarrow> string" where
  "handleSpendingAnalysis now =
     (let response = spending_analysis_json now
      in ''HTTP/1.1 200 OK'' @ CRLF
         @ ''Content-Type: application/json'' @ CRLF
         @ ''Content-Length: '' @ show_nat (length response) @ CRLF
         @ ''Access-Control-Allow-Origin: *'' @ CRLF
         @ CRLF
         @ response)"

definition trends_json :: "string \<Rightarrow> string" where
  \<open>trends_json now =
     raw_lines
      [''{'',
       ''  "trends": {'',
       ''    "monthly_trend": {'',
       ''      "direction": "upward",'',
       ''      "percentage_change": 8.5,'',
       ''      "confidence": 0.87'',
       ''    },'',
       ''    "category_trends": ['',
       ''      {"category": "Food & Dining", "trend": "increasing", "change": 15.2},'',
       ''      {"category": "Transportation", "trend": "stable", "change": -2.1},'',
       ''      {"category": "Entertainment", "trend": "decreasing", "change": -8.7}'',
       ''    ],'',
       ''    "seasonal_patterns": {'',
       ''      "peak_months": ["December", "January"],'',
       ''      "low_months": ["February", "March"]'',
       ''    }'',
       ''  },'',
       ''  "analysis_period": "last_12_months",'',
       ''  "generated_at": "'' @ getCurrentTimestamp now @ ''"'',
       ''}'']\<close>

definition handleTrends :: "string \<Rightarrow> string" where
  "handleTrends now =
     (let response = trends_json now
      in ''HTTP/1.1 200 OK'' @ CRLF
         @ ''Content-Type: application/json'' @ CRLF
         @ ''Content-Length: '' @ show_nat (length response) @ CRLF
         @ ''Access-Control-Allow-Origin: *'' @ CRLF
         @ CRLF
         @ response)"

definition predictions_json :: "string \<Rightarrow> string" where
  \<open>predictions_json now =
     raw_lines
      [''{'',
       ''  "predictions": {'',
       ''    "next_month_spending": {'',
       ''      "estimated_total": 3150.50,'',
       ''      "confidence_interval": {'',
       ''        "lower": 2890.00,'',
       ''        "upper": 3410.00'',
       ''      },'',
       ''      "confidence_level": 0.85'',
       ''    },'',
       ''    "budget_alerts": ['',
       ''      {'',
       ''        "category": "Food & Dining",'',
       ''        "risk_level": "high",'',
       ''        "predicted_overspend": 156.78'',
       ''      }'',
       ''    ],'',
       ''    "recommendations": ['',
       ''      "Consider reducing dining out expenses",'',
       ''      "Transportation costs are well managed",'',
       ''      "Set a stricter budget for shopping"'',
       ''    ]'',
       ''  },'',
       ''  "model_version": "1.0",'',
       ''  "generated_at": "'' @ getCurrentTimestamp now @ ''"'',
       ''}'']\<close>

definition handlePredictions :: "string \<Rightarrow> string" where
  "handlePredictions now =
     (let response = predictions_json now
      in ''HTTP/1.1 200 OK'' @ CRLF
         @ ''Content-Type: application/json'' @ CRLF
         @ ''Content-Length: '' @ show_nat (length response) @ CRLF
         @ ''Access-Control-Allow-Origin: *'' @ CRLF
         @ CRLF
         @ response)"

definition not_found_json :: string where
  \<open>not_found_json =
     raw_lines
      [''{'',
       ''  "error": "Endpoint not found",'',
       ''  "available_endpoints": ["/health", "/", "/spending-analysis", "/trends", "/predictions"]'',
       ''}'']\<close>

definition handle404 :: string where
  "handle404 =
     (let response = not_found_json
      in ''HTTP/1.1 404 Not Found'' @ CRLF
         @ ''Content-Type: application/json'' @ CRLF
         @ ''Content-Length: '' @ show_nat (length response) @ CRLF
         @ ''Access-Control-Allow-Origin: *'' @ CRLF
         @ CRLF
         @ response)"

text \<open>\<open>request_stream >> method >> path >> version\<close>\<close>

definition request_tokens :: "string \<Rightarrow> string \<times> string \<times> string" where
  "request_tokens request =
     (let (method, s) = extract_token request;
          (path, s) = extract_token s;
          (version, s) = extract_token s
      in (method, path, version))"

text \<open>The chain of comparisons of \<open>handleClient\<close> that picks the handler.\<close>

definition route_analytics :: "string \<Rightarrow> string \<Rightarrow> string" where
  "route_analytics now path =
     (if path = ''/health'' then handleHealthCheck_analytics now
      else if path = ''/'' then handleRootRequest_analytics
      else if path = ''/spending-analysis'' then handleSpendingAnalysis now
      else if path = ''/trends'' then handleTrends now
      else if path = ''/predictions'' then handlePredictions now
      else handle404)"

text \<open>
  \<open>handleClient\<close>: a \<open>read\<close> that returns nothing or fails closes the socket and sends
  nothing. Otherwise the response is passed to \<open>send\<close>; when \<open>send\<close> raises \<open>SIGPIPE\<close> the
  process is killed there, before the \<open>close\<close>.
\<close>

definition handleClient :: "string \<Rightarrow> read_result \<Rightarrow> send_result \<Rightarrow> int \<Rightarrow> process \<Rightarrow> process" where
  "handleClient now r so client_socket p =
     (let buffer = zero_buffer;
          (bytes_read, buffer) = sys_read r buffer (4096 - 1)
      in if bytes_read \<le> 0 then p\<lparr>closed := closed p @ [client_socket]\<rparr>
         else (let request = take (nat bytes_read) buffer;
                   (method, path, version) = request_tokens request;
                   p = p\<lparr>cout := cout p @ ''Request: '' @ method @ '' '' @ path @ [LF]\<rparr>;
                   response = route_analytics now path;
                   p = p\<lparr>sent := sent p @ [(client_socket, response)]\<rparr>
               in if so = SendSigpipe then p\<lparr>killed_by := Some SIGPIPE\<rparr>
                  else p\<lparr>closed := closed p @ [client_socket]\<rparr>))"

text \<open>
  The accept loop hands each connection to a detached thread running \<open>handleClient\<close>.
  The connections share no state, so the thread is run to its end at the point where it
  is started, with the clock text of the event. A signal that kills the process in a
  thread kills the accept loop with it.
\<close>

fun accept_loop_analytics :: "event list \<Rightarrow> process \<Rightarrow> int option \<times> process" where
  "accept_loop_analytics [] p = (if running p then (None, p) else (Some 0, p))"
| "accept_loop_analytics (e # es) p =
     (if \<not> running p then (Some 0, p)
      else (case e of
              Signal signum \<Rightarrow>
                (let (status, p) = signalHandler_analytics signum p in (Some status, p))
            | Accept client_socket r so now \<Rightarrow>
                if client_socket < 0
                then accept_loop_analytics es
                       (if running p then p\<lparr>cerr := cerr p @ ''Accept failed'' @ [LF]\<rparr> else p)
                else (let p = handleClient now r so client_socket p
                      in if killed_by p \<noteq> None then (None, p) else accept_loop_analytics es p)))"

definition banner_analytics :: "nat \<Rightarrow> string" where
  "banner_analytics port =
     [CHR 0xF0, CHR 0x9F, CHR 0x9A, CHR 0x80] @ '' Analytics Engine listening on port '' @ show_nat port @ [LF]
     @ [CHR 0xF0, CHR 0x9F, CHR 0x93, CHR 0x8A] @ '' Ready to process financial analytics requests'' @ [LF]
     @ [CHR 0xF0, CHR 0x9F, CHR 0x94, CHR 0x97] @ '' Available endpoints:'' @ [LF]
     @ ''   - GET /health'' @ [LF]
     @ ''   - GET /spending-analysis'' @ [LF]
     @ ''   - GET /trends'' @ [LF]
     @ ''   - GET /predictions'' @ [LF]"

definition main_analytics :: "setup_env \<Rightarrow> event list \<Rightarrow> int option \<times> process" where
  "main_analytics env events =
     (let port = 8080;
          p = initial\<lparr>server_fd := socket_ret env\<rparr>
      in if server_fd p = 0
         then (Some 1, p\<lparr>cerr := cerr p @ ''Socket creation failed'' @ [LF]\<rparr>)
         else if on_fd (server_fd p) (setsockopt_ret env) \<noteq> 0
         then (Some 1, p\<lparr>cerr := cerr p @ ''Setsockopt failed'' @ [LF]\<rparr>)
         else if on_fd (server_fd p) (bind_ret env) < 0
         then (Some 1, p\<lparr>cerr := cerr p @ ''Bind failed on port '' @ show_nat port @ [LF]\<rparr>)
         else if on_fd (server_fd p) (listen_ret env) < 0
         then (Some 1, p\<lparr>cerr := cerr p @ ''Listen failed'' @ [LF]\<rparr>)
         else accept_loop_analytics events (p\<lparr>cout := cout p @ banner_analytics port\<rparr>))"

section \<open>Reading responses and requests back\<close>

text \<open>
  The claims speak of the status line, the headers and the body of a response, and of the
  number a \<open>Content-Length\<close> header carries. These functions recover them from the bytes
  sent, the way a client does: lines end in CR LF, the first empty line ends the head,
  and the body is everything after it.
\<close>

fun scan_head :: "string \<Rightarrow> string \<Rightarrow> string list \<Rightarrow> (string list \<times> string) option" where
  "scan_head [] cur ls = None"
| "scan_head [c] cur ls = None"
| "scan_head (c # d # s) cur ls =
     (if c = CR \<and> d = LF
      then (if cur = [] then Some (ls, s) else scan_head s [] (ls @ [cur]))
      else scan_head (d # s) (cur @ [c]) ls)"

definition parse_response :: "string \<Rightarrow> (string list \<times> string) option" where
  "parse_response resp = scan_head resp [] []"

definition status_of :: "string \<Rightarrow> string option" where
  "status_of resp = (case parse_response resp of Some (l # ls, b) \<Rightarrow> Some l | _ \<Rightarrow> None)"

definition body_of :: "string \<Rightarrow> string option" where
  "body_of resp = (case parse_response resp of Some (ls, b) \<Rightarrow> Some b | None \<Rightarrow> None)"

fun read_digits :: "string \<Rightarrow> nat \<Rightarrow> nat option" where
  "read_digits [] acc = Some acc"
| "read_digits (c # cs) acc =
     (if c \<in> set ''0123456789'' then read_digits cs (10 * acc + (of_char c - 48)) else None)"

definition read_nat :: "string \<Rightarrow> nat option" where
  "read_nat s = (if s = [] then None else read_digits s 0)"

definition content_length :: "string \<Rightarrow> nat option" where
  "content_length header =
     (if starts_with header ''Content-Length: '' then read_nat (drop 16 header) else None)"

text \<open>
  The shape every handler function gives its response: a status line, the content type,
  a content length that is the number of bytes of the body, the CORS header, an empty
  line, the body.
\<close>

definition full_envelope :: "string \<Rightarrow> bool" where
  "full_envelope resp =
     (case parse_response resp of
        Some ([status, ct, cl, cors], body) \<Rightarrow>
          ct = ''Content-Type: application/json'' \<and>
          content_length cl = Some (length body) \<and>
          cors = ''Access-Control-Allow-Origin: *''
      | _ \<Rightarrow> False)"

text \<open>The bytes of the incoming data that one \<open>read\<close> into the 4096-byte buffer stores.\<close>

definition buffered :: "string \<Rightarrow> string" where
  "buffered d = take 4095 d"

text \<open>A token of a request line: at least one byte, none of them white space.\<close>

definition is_token :: "string \<Rightarrow> bool" where
  "is_token t = (t \<noteq> [] \<and> list_all (\<lambda>c. \<not> isspace c) t)"

text \<open>
  The route table of the Analytics Engine that the claims speak of: each known path with
  the JSON text its handler defines.
\<close>

definition route_table_analytics :: "string \<Rightarrow> (string \<times> string) list" where
  "route_table_analytics now =
     [(''/health'', health_json_analytics now),
      (''/'', root_json_analytics),
      (''/spending-analysis'', spending_analysis_json now),
      (''/trends'', trends_json now),
      (''/predictions'', predictions_json now)]"

text \<open>The paths the Analytics Engine knows.\<close>

definition known_paths_analytics :: "string list" where
  "known_paths_analytics = [''/health'', ''/'', ''/spending-analysis'', ''/trends'', ''/predictions'']"

text \<open>Two events that differ at most in the reading of the clock.\<close>

fun same_but_clock :: "event \<Rightarrow> event \<Rightarrow> bool" where
  "same_but_clock (Signal s) (Signal s') = (s = s')"
| "same_but_clock (Accept fd r so now) (Accept fd' r' so' now') = (fd = fd' \<and> r = r' \<and> so = so')"
| "same_but_clock _ _ = False"

text \<open>An environment in which every set-up call succeeds, with descriptor 3 for the socket.\<close>

definition good_env :: setup_env where
  "good_env = \<lparr>socket_ret = 3, setsockopt_ret = 0, bind_ret = 0, listen_ret = 0\<rparr>"

section \<open>Facts about the library functions\<close>

declare show_nat.simps [simp del]

lemma starts_with_prefix: "starts_with s pat \<longleftrightarrow> prefix pat s"
  by (induction s pat rule: starts_with.induct) auto

lemma find_from_sublist: "find_from s pat i \<noteq> None \<longleftrightarrow> sublist pat s"
  by (induction s arbitrary: i) (auto simp: starts_with_prefix sublist_Cons_right)

lemma find_str_sublist: "find_str s pat \<noteq> None \<longleftrightarrow> sublist pat s"
  unfolding find_str_def by (rule find_from_sublist)

lemma digit_not_CR: "k < 10 \<Longrightarrow> CR \<noteq> ''0123456789'' ! k"
proof -
  assume "k < 10"
  then have "''0123456789'' ! k \<in> set ''0123456789''"
    by (intro nth_mem) simp
  then show ?thesis
    by (auto simp: CR_def)
qed

lemma show_nat_no_CR: "CR \<notin> set (show_nat n)"
proof (induction n rule: show_nat.induct)
  case (1 n)
  show ?case
  proof (cases "n < 10")
    case True
    then show ?thesis
      by (subst show_nat.simps) (simp add: digit_not_CR)
  next
    case False
    with 1 show ?thesis
      by (subst show_nat.simps) (simp add: digit_not_CR)
  qed
qed

lemma show_nat_not_Nil: "show_nat n \<noteq> []"
  by (subst show_nat.simps) simp

lemma digit_all:
  "\<forall>k\<in>set [0..<10]. ''0123456789'' ! k \<in> set ''0123456789'' \<and> (of_char (''0123456789'' ! k) :: nat) - 48 = k"
  by code_simp

lemma digit_value:
  "k < 10 \<Longrightarrow> ''0123456789'' ! k \<in> set ''0123456789'' \<and> (of_char (''0123456789'' ! k) :: nat) - 48 = k"
  using digit_all by (simp del: set_simps upt.simps)

lemma read_digits_snoc:
  "read_digits (xs @ [c]) a =
     (case read_digits xs a of None \<Rightarrow> None
      | Some v \<Rightarrow> if c \<in> set ''0123456789'' then Some (10 * v + (of_char c - 48)) else None)"
  by (induction xs arbitrary: a) auto

lemma read_digits_show_nat: "read_digits (show_nat n) 0 = Some n"
proof (induction n rule: show_nat.induct)
  case (1 n)
  show ?case
  proof (cases "n < 10")
    case True
    then show ?thesis
      using digit_value[of n] by (subst show_nat.simps) simp
  next
    case False
    then have "read_digits (show_nat (n div 10)) 0 = Some (n div 10)"
      using 1 by simp
    moreover have "n mod 10 < 10" by simp
    ultimately show ?thesis
      using False digit_value[of "n mod 10"]
      by (subst show_nat.simps) (simp add: read_digits_snoc del: set_simps)
  qed
qed

lemma read_nat_show_nat: "read_nat (show_nat n) = Some n"
  by (simp add: read_nat_def show_nat_not_Nil read_digits_show_nat)

lemma content_length_show: "content_length (''Content-Length: '' @ show_nat n) = Some n"
  by (simp add: content_length_def read_nat_show_nat)

lemma scan_head_line:
  "CR \<notin> set l \<Longrightarrow> scan_head (l @ CR # LF # rest) cur ls = scan_head (CR # LF # rest) (cur @ l) ls"
proof (induction l arbitrary: cur)
  case Nil
  then show ?case by simp
next
  case (Cons x l)
  then show ?case by (cases l) auto
qed

lemma scan_head_full_line:
  assumes "CR \<notin> set l" and "l \<noteq> []"
  shows "scan_head (l @ CRLF @ rest) [] ls = scan_head rest [] (ls @ [l])"
  using assms scan_head_line[of l rest "[]" ls] by (simp add: CRLF_def)

lemma scan_head_blank: "scan_head (CRLF @ body) [] ls = Some (ls, body)"
  by (simp add: CRLF_def)

lemma parse_envelope:
  assumes "CR \<notin> set status" and "status \<noteq> []"
  shows "parse_response
           (status @ CRLF
            @ ''Content-Type: application/json'' @ CRLF
            @ ''Content-Length: '' @ show_nat n @ CRLF
            @ ''Access-Control-Allow-Origin: *'' @ CRLF
            @ CRLF
            @ body)
         = Some ([status, ''Content-Type: application/json'', ''Content-Length: '' @ show_nat n,
                  ''Access-Control-Allow-Origin: *''], body)"
proof -
  have ct: "CR \<notin> set ''Content-Type: application/json''"
    by (simp add: CR_def)
  have cl: "CR \<notin> set (''Content-Length: '' @ show_nat n)"
    using show_nat_no_CR[of n] by (simp add: CR_def)
  have co: "CR \<notin> set ''Access-Control-Allow-Origin: *''"
    by (simp add: CR_def)
  have "scan_head (status @ CRLF @ ''Content-Type: application/json'' @ CRLF
            @ (''Content-Length: '' @ show_nat n) @ CRLF
            @ ''Access-Control-Allow-Origin: *'' @ CRLF @ CRLF @ body) [] []
        = Some ([status, ''Content-Type: application/json'', ''Content-Length: '' @ show_nat n,
                  ''Access-Control-Allow-Origin: *''], body)"
    apply (subst scan_head_full_line[OF assms])
    apply (subst scan_head_full_line[OF ct])
     apply simp
    apply (subst scan_head_full_line[OF cl])
     apply simp
    apply (subst scan_head_full_line[OF co])
     apply simp
    apply (subst scan_head_blank)
    apply simp
    done
  then show ?thesis
    by (simp add: parse_response_def)
qed

section \<open>The responses of the handlers, read back\<close>

lemma status_200_ok: "CR \<notin> set ''HTTP/1.1 200 OK'' \<and> ''HTTP/1.1 200 OK'' \<noteq> []"
  by (simp add: CR_def)

lemma status_404_ok: "CR \<notin> set ''HTTP/1.1 404 Not Found'' \<and> ''HTTP/1.1 404 Not Found'' \<noteq> []"
  by (simp add: CR_def)

lemma parse_200:
  "parse_response
     (''HTTP/1.1 200 OK'' @ CRLF
      @ ''Content-Type: application/json'' @ CRLF
      @ ''Content-Length: '' @ show_nat n @ CRLF
      @ ''Access-Control-Allow-Origin: *'' @ CRLF
      @ CRLF
      @ body)
   = Some ([''HTTP/1.1 200 OK'', ''Content-Type: application/json'',
            ''Content-Length: '' @ show_nat n, ''Access-Control-Allow-Origin: *''], body)"
  using status_200_ok by (intro parse_envelope) simp_all

lemma parse_404:
  "parse_response
     (''HTTP/1.1 404 Not Found'' @ CRLF
      @ ''Content-Type: application/json'' @ CRLF
      @ ''Content-Length: '' @ show_nat n @ CRLF
      @ ''Access-Control-Allow-Origin: *'' @ CRLF
      @ CRLF
      @ body)
   = Some ([''HTTP/1.1 404 Not Found'', ''Content-Type: application/json'',
            ''Content-Length: '' @ show_nat n, ''Access-Control-Allow-Origin: *''], body)"
  using status_404_ok by (intro parse_envelope) simp_all

lemma parse_handleHealthCheck_analytics:
  "parse_response (handleHealthCheck_analytics now) =
     Some ([''HTTP/1.1 200 OK'', ''Content-Type: application/json'',
            ''Content-Length: '' @ show_nat (length (health_json_analytics now)),
            ''Access-Control-Allow-Origin: *''], health_json_analytics now)"
  unfolding handleHealthCheck_analytics_def Let_def by (rule parse_200)

lemma parse_handleRootRequest_analytics:
  "parse_response handleRootRequest_analytics =
     Some ([''HTTP/1.1 200 OK'', ''Content-Type: application/json'',
            ''Content-Length: '' @ show_nat (length root_json_analytics),
            ''Access-Control-Allow-Origin: *''], root_json_analytics)"
  unfolding handleRootRequest_analytics_def Let_def by (rule parse_200)

lemma parse_handleSpendingAnalysis:
  "parse_response (handleSpendingAnalysis now) =
     Some ([''HTTP/1.1 200 OK'', ''Content-Type: application/json'',
            ''Content-Length: '' @ show_nat (length (spending_analysis_json now)),
            ''Access-Control-Allow-Origin: *''], spending_analysis_json now)"
  unfolding handleSpendingAnalysis_def Let_def by (rule parse_200)

lemma parse_handleTrends:
  "parse_response (handleTrends now) =
     Some ([''HTTP/1.1 200 OK'', ''Content-Type: application/json'',
            ''Content-Length: '' @ show_nat (length (trends_json now)),
            ''Access-Control-Allow-Origin: *''], trends_json now)"
  unfolding handleTrends_def Let_def by (rule parse_200)

lemma parse_handlePredictions:
  "parse_response (handlePredictions now) =
     Some ([''HTTP/1.1 200 OK'', ''Content-Type: application/json'',
            ''Content-Length: '' @ show_nat (length (predictions_json now)),
            ''Access-Control-Allow-Origin: *''], predictions_json now)"
  unfolding handlePredictions_def Let_def by (rule parse_200)

lemma parse_handle404:
  "parse_response handle404 =
     Some ([''HTTP/1.1 404 Not Found'', ''Content-Type: application/json'',
            ''Content-Length: '' @ show_nat (length not_found_json),
            ''Access-Control-Allow-Origin: *''], not_found_json)"
  unfolding handle404_def Let_def by (rule parse_404)

lemma parse_handleHealthCheck_reporting:
  "parse_response handleHealthCheck_reporting =
     Some ([''HTTP/1.1 200 OK'', ''Content-Type: application/json'',
            ''Content-Length: '' @ show_nat (length health_json_reporting),
            ''Access-Control-Allow-Origin: *''], health_json_reporting)"
  unfolding handleHealthCheck_reporting_def Let_def by (rule parse_200)

lemma parse_handleRootRequest_reporting:
  "parse_response handleRootRequest_reporting =
     Some ([''HTTP/1.1 200 OK'', ''Content-Type: application/json'',
            ''Content-Length: '' @ show_nat (length root_json_reporting),
            ''Access-Control-Allow-Origin: *''], root_json_reporting)"
  unfolding handleRootRequest_reporting_def Let_def by (rule parse_200)

lemma parse_not_found_reporting:
  "parse_response not_found_reporting = Some ([''HTTP/1.1 404 Not Found'', ''Content-Length: 0''], [])"
  by (simp add: not_found_reporting_def parse_response_def CRLF_def CR_def LF_def)

lemma full_envelopeI:
  "parse_response resp = Some ([status, ''Content-Type: application/json'',
       ''Content-Length: '' @ show_nat (length body), ''Access-Control-Allow-Origin: *''], body)
   \<Longrightarrow> full_envelope resp"
  unfolding full_envelope_def
  by (simp only: content_length_show option.case prod.case list.case simp_thms)

lemma not_full_envelope_not_found_reporting: "\<not> full_envelope not_found_reporting"
  by (simp add: full_envelope_def not_found_reporting_def parse_response_def CRLF_def CR_def LF_def)

lemma full_envelope_handleHealthCheck_analytics: "full_envelope (handleHealthCheck_analytics now)"
  by (rule full_envelopeI) (rule parse_handleHealthCheck_analytics)

lemma full_envelope_handleRootRequest_analytics: "full_envelope handleRootRequest_analytics"
  by (rule full_envelopeI) (rule parse_handleRootRequest_analytics)

lemma full_envelope_handleSpendingAnalysis: "full_envelope (handleSpendingAnalysis now)"
  by (rule full_envelopeI) (rule parse_handleSpendingAnalysis)

lemma full_envelope_handleTrends: "full_envelope (handleTrends now)"
  by (rule full_envelopeI) (rule parse_handleTrends)

lemma full_envelope_handlePredictions: "full_envelope (handlePredictions now)"
  by (rule full_envelopeI) (rule parse_handlePredictions)

lemma full_envelope_handle404: "full_envelope handle404"
  by (rule full_envelopeI) (rule parse_handle404)

lemma full_envelope_handleHealthCheck_reporting: "full_envelope handleHealthCheck_reporting"
  by (rule full_envelopeI) (rule parse_handleHealthCheck_reporting)

lemma full_envelope_handleRootRequest_reporting: "full_envelope handleRootRequest_reporting"
  by (rule full_envelopeI) (rule parse_handleRootRequest_reporting)

lemma full_envelope_route_analytics: "full_envelope (route_analytics now path)"
  unfolding route_analytics_def
  by (simp only: full_envelope_handleHealthCheck_analytics full_envelope_handleRootRequest_analytics
      full_envelope_handleSpendingAnalysis full_envelope_handleTrends full_envelope_handlePredictions
      full_envelope_handle404 if_split simp_thms)

lemma length_health_json_reporting: "length health_json_reporting = 67"
  by (simp add: health_json_reporting_def)

lemma length_root_json_reporting: "length root_json_reporting = 144"
  by (simp add: root_json_reporting_def)

lemma length_not_found_json: "length not_found_json = 127"
  by (simp add: not_found_json_def LF_def)

lemma show_nat_67: "show_nat 67 = ''67''"
  by (simp add: show_nat.simps)

lemma show_nat_144: "show_nat 144 = ''144''"
  by (simp add: show_nat.simps)

lemma show_nat_127: "show_nat 127 = ''127''"
  by (simp add: show_nat.simps)

section \<open>Tokens, the read buffer and one connection\<close>

lemma extract_token_skip: "isspace c \<Longrightarrow> extract_token (c # s) = extract_token s"
  by (simp add: extract_token_def)

lemma extract_token_token:
  assumes "is_token t" and "isspace c"
  shows "extract_token (t @ c # rest) = (t, c # rest)"
proof -
  from assms(1) obtain x xs where t: "t = x # xs" and x: "\<not> isspace x"
    by (cases t) (auto simp: is_token_def)
  from assms(1) have all: "\<forall>y\<in>set t. \<not> isspace y"
    by (simp add: is_token_def list_all_iff)
  have "dropWhile isspace (t @ c # rest) = t @ c # rest"
    using t x by simp
  moreover have "takeWhile (\<lambda>c. \<not> isspace c) (t @ c # rest) = t"
    using all assms(2) by (simp add: takeWhile_append2)
  moreover have "dropWhile (\<lambda>c. \<not> isspace c) (t @ c # rest) = c # rest"
    using all assms(2) by (simp add: dropWhile_append2)
  ultimately show ?thesis
    by (simp add: extract_token_def Let_def)
qed

lemma extract_token_last:
  assumes "is_token t"
  shows "extract_token t = (t, [])"
proof -
  from assms obtain x xs where t: "t = x # xs" and x: "\<not> isspace x"
    by (cases t) (auto simp: is_token_def)
  from assms have all: "\<forall>y\<in>set t. \<not> isspace y"
    by (simp add: is_token_def list_all_iff)
  have "dropWhile isspace t = t"
    using t x by simp
  moreover have "takeWhile (\<lambda>c. \<not> isspace c) t = t" "dropWhile (\<lambda>c. \<not> isspace c) t = []"
    using all by simp_all
  ultimately show ?thesis
    by (simp add: extract_token_def Let_def)
qed

lemma request_tokens_method:
  assumes "is_token m" and "isspace c"
  shows "request_tokens (m @ c # rest) =
           (m, fst (extract_token rest), fst (extract_token (snd (extract_token rest))))"
  using assms
  by (simp add: request_tokens_def extract_token_token extract_token_skip split: prod.splits)

lemma isspace_simps: "isspace (CHR '' '')" "isspace CR" "isspace LF"
  by (simp_all add: isspace_def CR_def LF_def)

lemma request_tokens_line:
  assumes "is_token m" and "is_token p" and "is_token v" and "isspace c"
  shows "request_tokens (m @ '' '' @ p @ '' '' @ v @ c # rest) = (m, p, v)"
proof -
  have "request_tokens (m @ CHR '' '' # (p @ CHR '' '' # (v @ c # rest))) = (m, p, v)"
    using assms isspace_simps(1)
    by (simp add: request_tokens_method extract_token_token extract_token_skip)
  then show ?thesis by simp
qed

lemma takeWhile_stop: "\<not> P y \<Longrightarrow> takeWhile P (xs @ y # ys) = takeWhile P xs"
  by (induction xs) auto

lemma zero_buffer_drop:
  "n \<le> 4095 \<Longrightarrow> drop n zero_buffer = NUL # replicate (4095 - n) NUL"
proof -
  assume "n \<le> 4095"
  then have "4096 - n = Suc (4095 - n)" by simp
  then show ?thesis
    by (simp add: zero_buffer_def del: replicate_Suc add: replicate_Suc[symmetric])
qed

lemma request_reporting_data: "request_reporting (ReadData d) = c_string (buffered d)"
proof -
  have "length (take 4095 d) \<le> 4095" by simp
  then have "drop (length (take 4095 d)) zero_buffer = NUL # replicate (4095 - length (take 4095 d)) NUL"
    by (rule zero_buffer_drop)
  then show ?thesis
    by (simp add: request_reporting_def sys_read_def Let_def c_string_def buffered_def takeWhile_stop
        del: length_take)
qed

lemma request_reporting_error: "request_reporting ReadError = []"
proof -
  have z: "zero_buffer = NUL # replicate 4095 NUL"
    using zero_buffer_drop[of 0] by simp
  have "c_string (NUL # replicate 4095 NUL) = []"
    by (simp add: c_string_def)
  then have "c_string zero_buffer = []"
    by (subst z)
  then show ?thesis
    by (simp add: request_reporting_def sys_read_def)
qed

lemma handleClient_error: "handleClient now ReadError so fd p = p\<lparr>closed := closed p @ [fd]\<rparr>"
  by (simp add: handleClient_def sys_read_def)

lemma handleClient_eof: "handleClient now (ReadData []) so fd p = p\<lparr>closed := closed p @ [fd]\<rparr>"
  by (simp add: handleClient_def sys_read_def)

lemma handleClient_data:
  assumes "d \<noteq> []"
  shows "handleClient now (ReadData d) so fd p =
           (case request_tokens (buffered d) of
              (method, path, version) \<Rightarrow>
                (if so = SendSigpipe
                 then p\<lparr>cout := cout p @ ''Request: '' @ method @ '' '' @ path @ [LF],
                        sent := sent p @ [(fd, route_analytics now path)],
                        killed_by := Some SIGPIPE\<rparr>
                 else p\<lparr>cout := cout p @ ''Request: '' @ method @ '' '' @ path @ [LF],
                        sent := sent p @ [(fd, route_analytics now path)],
                        closed := closed p @ [fd]\<rparr>))"
proof -
  have "take 4095 d \<noteq> []" using assms by (cases d) simp_all
  then have pos: "\<not> int (length (take 4095 d)) \<le> 0" by simp
  have "take (length xs) (xs @ ys) = xs" for xs ys :: string
    by simp
  then have req: "take (nat (int (length (take 4095 d)))) (take 4095 d @ drop (length (take 4095 d)) zero_buffer) = take 4095 d"
    by (simp only: nat_int)
  have n: "(4096::nat) - 1 = 4095"
    by simp
  show ?thesis
    unfolding handleClient_def sys_read_def buffered_def Let_def read_result.case prod.case n
    by (simp only: pos req if_False) (simp split: prod.splits)
qed

lemma sublist_find_str: "sublist pat s \<longleftrightarrow> find_str s pat \<noteq> None"
  by (simp only: find_str_sublist)

lemma route_reporting_sublist:
  "route_reporting req =
     (if sublist ''GET /health'' req then handleHealthCheck_reporting
      else if sublist ''GET /'' req then handleRootRequest_reporting
      else not_found_reporting)"
  unfolding route_reporting_def by (simp only: find_str_sublist)

lemma sent_serve_reporting:
  "sent (serve_reporting fd r so p) = sent p @ [(fd, route_reporting (request_reporting r))]"
  by (simp add: serve_reporting_def Let_def)

lemma responses_reporting_distinct:
  "distinct [handleHealthCheck_reporting, handleRootRequest_reporting, not_found_reporting]"
proof -
  have "parse_response handleHealthCheck_reporting \<noteq> parse_response handleRootRequest_reporting"
    unfolding parse_handleHealthCheck_reporting parse_handleRootRequest_reporting
    by (simp add: health_json_reporting_def root_json_reporting_def)
  moreover have "parse_response handleHealthCheck_reporting \<noteq> parse_response not_found_reporting"
    unfolding parse_handleHealthCheck_reporting parse_not_found_reporting by simp
  moreover have "parse_response handleRootRequest_reporting \<noteq> parse_response not_found_reporting"
    unfolding parse_handleRootRequest_reporting parse_not_found_reporting by simp
  ultimately show ?thesis by auto
qed

lemma sent_handleClient_data:
  "d \<noteq> [] \<Longrightarrow>
   sent (handleClient now (ReadData d) so fd p) =
     sent p @ [(fd, route_analytics now (fst (snd (request_tokens (buffered d)))))]"
  by (simp add: handleClient_data split: prod.splits)

lemma route_analytics_unknown:
  "path \<notin> set known_paths_analytics \<Longrightarrow> route_analytics now path = handle404"
  by (simp add: known_paths_analytics_def route_analytics_def)

lemma route_analytics_known:
  "map_of (route_table_analytics now) path = Some json \<Longrightarrow>
   parse_response (route_analytics now path) =
     Some ([''HTTP/1.1 200 OK'', ''Content-Type: application/json'',
            ''Content-Length: '' @ show_nat (length json), ''Access-Control-Allow-Origin: *''], json)"
  unfolding route_table_analytics_def route_analytics_def
  by (auto simp only: map_of.simps fst_conv snd_conv fun_upd_apply option.inject
      parse_handleHealthCheck_analytics parse_handleRootRequest_analytics
      parse_handleSpendingAnalysis parse_handleTrends parse_handlePredictions
      split: if_splits)

lemma not_found_json_lists_paths:
  "list_all (\<lambda>path. sublist ([CHR 0x22] @ path @ [CHR 0x22]) not_found_json) known_paths_analytics"
  by (simp add: known_paths_analytics_def not_found_json_def sublist_find_str find_str_def LF_def)

lemma parse_handle404_literal:
  "parse_response handle404 =
     Some ([''HTTP/1.1 404 Not Found'', ''Content-Type: application/json'',
            ''Content-Length: 127'', ''Access-Control-Allow-Origin: *''], not_found_json)"
  using parse_handle404 by (simp only: length_not_found_json show_nat_127) simp

lemma tokens_get_nope:
  "request_tokens (buffered (''GET /nope HTTP/1.1'' @ CRLF @ CRLF)) = (''GET'', ''/nope'', ''HTTP/1.1'')"
  by (simp add: buffered_def request_tokens_def extract_token_def isspace_def CRLF_def CR_def LF_def)

lemma request_post_nope:
  "request_reporting (ReadData (''POST /nope HTTP/1.1'' @ CRLF @ CRLF)) = ''POST /nope HTTP/1.1'' @ CRLF @ CRLF"
  by (simp add: request_reporting_data c_string_def buffered_def CRLF_def CR_def LF_def NUL_def)

lemma request_get_nope:
  "request_reporting (ReadData (''GET /nope HTTP/1.1'' @ CRLF @ CRLF)) = ''GET /nope HTTP/1.1'' @ CRLF @ CRLF"
  by (simp add: request_reporting_data c_string_def buffered_def CRLF_def CR_def LF_def NUL_def)

lemma sent_handleClient_tokens:
  "d \<noteq> [] \<Longrightarrow> request_tokens (buffered d) = (method, path, version) \<Longrightarrow>
   sent (handleClient now (ReadData d) so fd p) = sent p @ [(fd, route_analytics now path)]"
  by (simp add: handleClient_data)

lemma parse_health_reporting_literal:
  "parse_response handleHealthCheck_reporting =
     Some ([''HTTP/1.1 200 OK'', ''Content-Type: application/json'',
            ''Content-Length: 67'', ''Access-Control-Allow-Origin: *''], health_json_reporting)"
  using parse_handleHealthCheck_reporting
  by (simp only: length_health_json_reporting show_nat_67) simp

lemma parse_root_reporting_literal:
  "parse_response handleRootRequest_reporting =
     Some ([''HTTP/1.1 200 OK'', ''Content-Type: application/json'',
            ''Content-Length: 144'', ''Access-Control-Allow-Origin: *''], root_json_reporting)"
  using parse_handleRootRequest_reporting
  by (simp only: length_root_json_reporting show_nat_144) simp

lemma route_table_paths: "map fst (route_table_analytics now) = known_paths_analytics"
  by (simp add: route_table_analytics_def known_paths_analytics_def)

lemma tokens_get_health:
  "request_tokens (buffered (''GET /health HTTP/1.1'' @ CRLF @ CRLF)) = (''GET'', ''/health'', ''HTTP/1.1'')"
  by (simp add: buffered_def request_tokens_def extract_token_def isspace_def CRLF_def CR_def LF_def)

lemma request_get_root:
  "request_reporting (ReadData (''GET / HTTP/1.1'' @ CRLF @ CRLF)) = ''GET / HTTP/1.1'' @ CRLF @ CRLF"
  by (simp add: request_reporting_data c_string_def buffered_def CRLF_def CR_def LF_def NUL_def)

lemma request_get_root_note:
  "request_reporting (ReadData (''GET / HTTP/1.1'' @ CRLF @ ''X-Note: GET /health'' @ CRLF @ CRLF))
     = ''GET / HTTP/1.1'' @ CRLF @ ''X-Note: GET /health'' @ CRLF @ CRLF"
  by (simp add: request_reporting_data c_string_def buffered_def CRLF_def CR_def LF_def NUL_def)

lemma request_get_reports:
  "request_reporting (ReadData (''GET /reports HTTP/1.1'' @ CRLF @ CRLF)) = ''GET /reports HTTP/1.1'' @ CRLF @ CRLF"
  by (simp add: request_reporting_data c_string_def buffered_def CRLF_def CR_def LF_def NUL_def)

lemma handleClient_cases:
  "handleClient now r so fd p = p\<lparr>closed := closed p @ [fd]\<rparr>
   \<or> (\<exists>method path.
         handleClient now r so fd p =
           (if so = SendSigpipe
            then p\<lparr>cout := cout p @ ''Request: '' @ method @ '' '' @ path @ [LF],
                   sent := sent p @ [(fd, route_analytics now path)],
                   killed_by := Some SIGPIPE\<rparr>
            else p\<lparr>cout := cout p @ ''Request: '' @ method @ '' '' @ path @ [LF],
                   sent := sent p @ [(fd, route_analytics now path)],
                   closed := closed p @ [fd]\<rparr>))"
proof (cases r)
  case ReadError
  then show ?thesis by (simp add: handleClient_error)
next
  case (ReadData d)
  show ?thesis
  proof (cases "d = []")
    case True
    with ReadData show ?thesis by (simp add: handleClient_eof)
  next
    case False
    obtain tm tp tv where "request_tokens (buffered d) = (tm, tp, tv)"
      by (cases "request_tokens (buffered d)") auto
    with False ReadData show ?thesis
      by (simp add: handleClient_data) blast
  qed
qed

lemma running_handleClient: "running (handleClient now r so fd p) = running p"
  using handleClient_cases[of now r so fd p] by (auto split: if_splits)

lemma server_fd_handleClient: "server_fd (handleClient now r so fd p) = server_fd p"
  using handleClient_cases[of now r so fd p] by (auto split: if_splits)

lemma cerr_handleClient: "cerr (handleClient now r so fd p) = cerr p"
  using handleClient_cases[of now r so fd p] by (auto split: if_splits)

lemma sent_handleClient_all:
  assumes "list_all P (sent p)" and "\<And>path. P (fd, route_analytics now path)"
  shows "list_all P (sent (handleClient now r so fd p))"
  using handleClient_cases[of now r so fd p] assms by (auto split: if_splits)

lemma running_serve_reporting: "running (serve_reporting fd r so p) = running p"
  by (simp add: serve_reporting_def Let_def)


lemma killed_by_handleClient:
  "so \<noteq> SendSigpipe \<Longrightarrow> killed_by (handleClient now r so fd p) = killed_by p"
  using handleClient_cases[of now r so fd p] by auto

lemma killed_by_serve_reporting:
  "killed_by (serve_reporting fd r so p) = (if so = SendSigpipe then Some SIGPIPE else killed_by p)"
  by (simp add: serve_reporting_def Let_def)

lemma sent_signalHandler_analytics: "sent (snd (signalHandler_analytics s p)) = sent p"
  by (simp add: signalHandler_analytics_def Let_def)

lemma sent_signalHandler_reporting: "sent (snd (signalHandler_reporting s p)) = sent p"
  by (simp add: signalHandler_reporting_def Let_def)

lemma fst_signalHandler_analytics: "fst (signalHandler_analytics s p) = 0"
  by (simp add: signalHandler_analytics_def Let_def)

lemma fst_signalHandler_reporting: "fst (signalHandler_reporting s p) = 0"
  by (simp add: signalHandler_reporting_def Let_def)

lemma accept_loop_analytics_sent:
  assumes "\<And>fd now path. P (fd, route_analytics now path)"
  shows "list_all P (sent p) \<Longrightarrow> list_all P (sent (snd (accept_loop_analytics es p)))"
proof (induction es arbitrary: p)
  case Nil
  then show ?case by simp
next
  case (Cons e es)
  show ?case
  proof (cases e)
    case (Signal s)
    with Cons.prems show ?thesis
      by (simp add: split_beta sent_signalHandler_analytics)
  next
    case (Accept fd r so now)
    have "list_all P (sent (handleClient now r so fd p))"
      using Cons.prems assms by (rule sent_handleClient_all)
    then have "list_all P (sent (snd (accept_loop_analytics es (handleClient now r so fd p))))"
      by (rule Cons.IH)
    moreover have "list_all P (sent (snd (accept_loop_analytics es (p\<lparr>cerr := cerr p @ ''Accept failed'' @ [LF]\<rparr>))))"
      using Cons.prems by (intro Cons.IH) simp
    ultimately show ?thesis
      using Accept Cons.prems \<open>list_all P (sent (handleClient now r so fd p))\<close> by (simp add: Let_def)
  qed
qed

lemma accept_loop_reporting_sent:
  assumes "\<And>fd req. P (fd, route_reporting req)"
  shows "list_all P (sent p) \<Longrightarrow> list_all P (sent (snd (accept_loop_reporting es p)))"
proof (induction es arbitrary: p)
  case Nil
  then show ?case by simp
next
  case (Cons e es)
  show ?case
  proof (cases e)
    case (Signal s)
    with Cons.prems show ?thesis
      by (simp add: split_beta sent_signalHandler_reporting)
  next
    case (Accept fd r so now)
    have "list_all P (sent (serve_reporting fd r so p))"
      using Cons.prems assms by (simp add: sent_serve_reporting)
    then have "list_all P (sent (snd (accept_loop_reporting es (serve_reporting fd r so p))))"
      by (rule Cons.IH)
    moreover have "list_all P (sent (snd (accept_loop_reporting es (p\<lparr>cerr := cerr p @ ''Accept failed'' @ [LF]\<rparr>))))"
      using Cons.prems by (intro Cons.IH) simp
    ultimately show ?thesis
      using Accept Cons.prems \<open>list_all P (sent (serve_reporting fd r so p))\<close> by (simp add: Let_def)
  qed
qed

lemma main_analytics_sent:
  assumes "\<And>fd now path. P (fd, route_analytics now path)"
  shows "list_all P (sent (snd (main_analytics env events)))"
proof -
  have "list_all P (sent (snd (accept_loop_analytics events q)))" if "sent q = []" for q
    using that by (intro accept_loop_analytics_sent assms) simp
  then show ?thesis
    by (simp add: main_analytics_def Let_def initial_def)
qed

lemma main_reporting_sent:
  assumes "\<And>fd req. P (fd, route_reporting req)"
  shows "list_all P (sent (snd (main_reporting env events)))"
proof -
  have "list_all P (sent (snd (accept_loop_reporting events q)))" if "sent q = []" for q
    using that by (intro accept_loop_reporting_sent assms) simp
  then show ?thesis
    by (simp add: main_reporting_def Let_def initial_def)
qed

lemma route_reporting_envelope:
  "full_envelope (route_reporting req) \<or> route_reporting req = not_found_reporting"
  by (simp add: route_reporting_def full_envelope_handleHealthCheck_reporting
      full_envelope_handleRootRequest_reporting)

lemma show_nat_8080: "show_nat 8080 = ''8080''"
  by (simp add: show_nat.simps)

lemma main_reporting_setup_ok:
  assumes "0 < socket_ret env" and "0 \<le> bind_ret env" and "0 \<le> listen_ret env"
  shows "main_reporting env events =
           accept_loop_reporting events
             (initial\<lparr>server_fd := socket_ret env,
                      cout := ''Reporting Engine listening on port 8080'' @ [LF]\<rparr>)"
  using assms
  by (simp add: main_reporting_def Let_def on_fd_def initial_def show_nat_8080)

lemma main_analytics_setup_ok:
  assumes "0 < socket_ret env" and "setsockopt_ret env = 0" and "0 \<le> bind_ret env"
    and "0 \<le> listen_ret env"
  shows "main_analytics env events =
           accept_loop_analytics events
             (initial\<lparr>server_fd := socket_ret env, cout := banner_analytics 8080\<rparr>)"
  using assms
  by (simp add: main_analytics_def Let_def on_fd_def initial_def)

lemma main_reporting_setup_failed:
  assumes "socket_ret env < 0 \<or> bind_ret env < 0 \<or> listen_ret env < 0"
  shows "fst (main_reporting env events) = Some 1"
  using assms by (auto simp add: main_reporting_def Let_def on_fd_def)

lemma main_analytics_setup_failed:
  assumes "socket_ret env < 0 \<or> bind_ret env < 0 \<or> listen_ret env < 0"
  shows "fst (main_analytics env events) = Some 1"
  using assms by (auto simp add: main_analytics_def Let_def on_fd_def)

lemma accept_loop_analytics_status: "fst (accept_loop_analytics es p) \<in> {None, Some 0}"
proof (induction es arbitrary: p)
  case Nil
  then show ?case by simp
next
  case (Cons e es)
  show ?case
  proof (cases e)
    case (Signal s)
    then show ?thesis
      by (simp add: split_beta fst_signalHandler_analytics)
  next
    case (Accept fd r so now)
    then show ?thesis
      using Cons.IH[of "handleClient now r so fd p"]
        Cons.IH[of "p\<lparr>cerr := cerr p @ ''Accept failed'' @ [LF]\<rparr>"]
      by (simp add: Let_def)
  qed
qed

lemma accept_loop_reporting_status: "fst (accept_loop_reporting es p) \<in> {None, Some 0}"
proof (induction es arbitrary: p)
  case Nil
  then show ?case by simp
next
  case (Cons e es)
  show ?case
  proof (cases e)
    case (Signal s)
    then show ?thesis
      by (simp add: split_beta fst_signalHandler_reporting)
  next
    case (Accept fd r so now)
    then show ?thesis
      using Cons.IH[of "serve_reporting fd r so p"]
        Cons.IH[of "p\<lparr>cerr := cerr p @ ''Accept failed'' @ [LF]\<rparr>"]
      by (simp add: Let_def)
  qed
qed

lemma accept_loop_analytics_signal:
  "running p \<Longrightarrow> Signal sg \<in> set es \<Longrightarrow> killed_by (snd (accept_loop_analytics es p)) = None \<Longrightarrow>
   fst (accept_loop_analytics es p) = Some 0"
proof (induction es arbitrary: p)
  case Nil
  then show ?case by simp
next
  case (Cons e es)
  show ?case
  proof (cases e)
    case (Signal sg')
    with Cons.prems show ?thesis
      by (simp add: split_beta fst_signalHandler_analytics)
  next
    case (Accept fd r so now)
    with Cons.prems have in_rest: "Signal sg \<in> set es"
      by simp
    show ?thesis
    proof (cases "fd < 0")
      case True
      with Accept Cons.prems(1,3) in_rest
        Cons.IH[of "p\<lparr>cerr := cerr p @ ''Accept failed'' @ [LF]\<rparr>"]
      show ?thesis by simp
    next
      case False
      let ?q = "handleClient now r so fd p"
      from False Accept Cons.prems(1,3) have alive: "killed_by ?q = None"
        by (cases "killed_by ?q") (simp_all add: Let_def)
      with False Accept Cons.prems(1,3) in_rest Cons.IH[of ?q]
      show ?thesis by (simp add: Let_def running_handleClient)
    qed
  qed
qed

lemma accept_loop_reporting_signal:
  "running p \<Longrightarrow> Signal sg \<in> set es \<Longrightarrow> killed_by (snd (accept_loop_reporting es p)) = None \<Longrightarrow>
   fst (accept_loop_reporting es p) = Some 0"
proof (induction es arbitrary: p)
  case Nil
  then show ?case by simp
next
  case (Cons e es)
  show ?case
  proof (cases e)
    case (Signal sg')
    with Cons.prems show ?thesis
      by (simp add: split_beta fst_signalHandler_reporting)
  next
    case (Accept fd r so now)
    with Cons.prems have in_rest: "Signal sg \<in> set es"
      by simp
    show ?thesis
    proof (cases "fd < 0")
      case True
      with Accept Cons.prems(1,3) in_rest
        Cons.IH[of "p\<lparr>cerr := cerr p @ ''Accept failed'' @ [LF]\<rparr>"]
      show ?thesis by simp
    next
      case False
      let ?q = "serve_reporting fd r so p"
      from False Accept Cons.prems(1,3) have alive: "killed_by ?q = None"
        by (cases "killed_by ?q") (simp_all add: Let_def)
      with False Accept Cons.prems(1,3) in_rest Cons.IH[of ?q]
      show ?thesis by (simp add: Let_def running_serve_reporting)
    qed
  qed
qed

lemma killed_by_signalHandler_analytics: "killed_by (snd (signalHandler_analytics sg p)) = killed_by p"
  by (simp add: signalHandler_analytics_def Let_def)

lemma killed_by_signalHandler_reporting: "killed_by (snd (signalHandler_reporting sg p)) = killed_by p"
  by (simp add: signalHandler_reporting_def Let_def)

lemma accept_loop_analytics_not_killed:
  "killed_by p = None \<Longrightarrow> \<forall>fd r now. Accept fd r SendSigpipe now \<notin> set es \<Longrightarrow>
   killed_by (snd (accept_loop_analytics es p)) = None"
proof (induction es arbitrary: p)
  case Nil
  then show ?case by simp
next
  case (Cons e es)
  show ?case
  proof (cases e)
    case (Signal sg)
    with Cons.prems show ?thesis
      by (simp add: split_beta killed_by_signalHandler_analytics)
  next
    case (Accept fd r so now)
    with Cons.prems(2) have so: "so \<noteq> SendSigpipe" and rest: "\<forall>fd r now. Accept fd r SendSigpipe now \<notin> set es"
      by auto
    from so Cons.prems(1) have "killed_by (handleClient now r so fd p) = None"
      by (simp add: killed_by_handleClient)
    with Accept Cons.prems(1) rest Cons.IH[of "handleClient now r so fd p"]
      Cons.IH[of "p\<lparr>cerr := cerr p @ ''Accept failed'' @ [LF]\<rparr>"]
    show ?thesis
      by (simp add: Let_def)
  qed
qed

lemma accept_loop_reporting_not_killed:
  "killed_by p = None \<Longrightarrow> \<forall>fd r now. Accept fd r SendSigpipe now \<notin> set es \<Longrightarrow>
   killed_by (snd (accept_loop_reporting es p)) = None"
proof (induction es arbitrary: p)
  case Nil
  then show ?case by simp
next
  case (Cons e es)
  show ?case
  proof (cases e)
    case (Signal sg)
    with Cons.prems show ?thesis
      by (simp add: split_beta killed_by_signalHandler_reporting)
  next
    case (Accept fd r so now)
    with Cons.prems(2) have so: "so \<noteq> SendSigpipe" and rest: "\<forall>fd r now. Accept fd r SendSigpipe now \<notin> set es"
      by auto
    from so Cons.prems(1) have "killed_by (serve_reporting fd r so p) = None"
      by (simp add: killed_by_serve_reporting)
    with Accept Cons.prems(1) rest Cons.IH[of "serve_reporting fd r so p"]
      Cons.IH[of "p\<lparr>cerr := cerr p @ ''Accept failed'' @ [LF]\<rparr>"]
    show ?thesis
      by (simp add: Let_def)
  qed
qed

lemma main_analytics_not_killed:
  assumes "\<forall>fd r now. Accept fd r SendSigpipe now \<notin> set events"
  shows "killed_by (snd (main_analytics env events)) = None"
proof -
  have "killed_by (snd (accept_loop_analytics events q)) = None" if "killed_by q = None" for q
    using that assms by (rule accept_loop_analytics_not_killed)
  then show ?thesis
    by (simp add: main_analytics_def Let_def initial_def)
qed

lemma main_reporting_not_killed:
  assumes "\<forall>fd r now. Accept fd r SendSigpipe now \<notin> set events"
  shows "killed_by (snd (main_reporting env events)) = None"
proof -
  have "killed_by (snd (accept_loop_reporting events q)) = None" if "killed_by q = None" for q
    using that assms by (rule accept_loop_reporting_not_killed)
  then show ?thesis
    by (simp add: main_reporting_def Let_def initial_def)
qed

lemma main_analytics_status: "fst (main_analytics env events) \<in> {None, Some 0, Some 1}"
proof -
  have "fst (accept_loop_analytics events q) \<in> {None, Some 0, Some 1}" for q
    using accept_loop_analytics_status[of events q] by auto
  then show ?thesis
    by (simp add: main_analytics_def Let_def del: insert_iff) simp
qed

lemma main_reporting_status: "fst (main_reporting env events) \<in> {None, Some 0, Some 1}"
proof -
  have "fst (accept_loop_reporting events q) \<in> {None, Some 0, Some 1}" for q
    using accept_loop_reporting_status[of events q] by auto
  then show ?thesis
    by (simp add: main_reporting_def Let_def del: insert_iff) simp
qed

lemma serve_reporting_error:
  "serve_reporting fd ReadError so p =
     (if so = SendSigpipe
      then p\<lparr>sent := sent p @ [(fd, not_found_reporting)], killed_by := Some SIGPIPE\<rparr>
      else p\<lparr>sent := sent p @ [(fd, not_found_reporting)], closed := closed p @ [fd]\<rparr>)"
proof -
  have "route_reporting [] = not_found_reporting"
    by (simp add: route_reporting_def find_str_def)
  then show ?thesis
    by (simp add: serve_reporting_def Let_def request_reporting_error)
qed

lemma accept_loop_reporting_clock:
  "list_all2 same_but_clock es1 es2 \<Longrightarrow> accept_loop_reporting es1 p = accept_loop_reporting es2 p"
proof (induction es1 es2 arbitrary: p rule: list_all2_induct)
  case Nil
  then show ?case by simp
next
  case (Cons e1 es1 e2 es2)
  from Cons.hyps(1) Cons.IH show ?case
    by (cases e1; cases e2) (simp_all add: Let_def)
qed

lemma main_reporting_clock:
  "list_all2 same_but_clock es1 es2 \<Longrightarrow> main_reporting env es1 = main_reporting env es2"
  by (simp add: main_reporting_def Let_def accept_loop_reporting_clock)

lemma health_json_analytics_inj:
  "health_json_analytics now1 = health_json_analytics now2
   \<longleftrightarrow> getCurrentTimestamp now1 = getCurrentTimestamp now2"
  by (simp add: health_json_analytics_def)

lemma spending_analysis_json_inj:
  "spending_analysis_json now1 = spending_analysis_json now2
   \<longleftrightarrow> getCurrentTimestamp now1 = getCurrentTimestamp now2"
  by (simp add: spending_analysis_json_def)

lemma trends_json_inj:
  "trends_json now1 = trends_json now2 \<longleftrightarrow> getCurrentTimestamp now1 = getCurrentTimestamp now2"
  by (simp add: trends_json_def)

lemma predictions_json_inj:
  "predictions_json now1 = predictions_json now2
   \<longleftrightarrow> getCurrentTimestamp now1 = getCurrentTimestamp now2"
  by (simp add: predictions_json_def)

lemma handlers_differ:
  assumes "getCurrentTimestamp now1 \<noteq> getCurrentTimestamp now2"
  shows "handleHealthCheck_analytics now1 \<noteq> handleHealthCheck_analytics now2"
    and "handleSpendingAnalysis now1 \<noteq> handleSpendingAnalysis now2"
    and "handleTrends now1 \<noteq> handleTrends now2"
    and "handlePredictions now1 \<noteq> handlePredictions now2"
proof -
  show "handleHealthCheck_analytics now1 \<noteq> handleHealthCheck_analytics now2"
  proof
    assume "handleHealthCheck_analytics now1 = handleHealthCheck_analytics now2"
    then have "parse_response (handleHealthCheck_analytics now1) = parse_response (handleHealthCheck_analytics now2)"
      by simp
    then have "health_json_analytics now1 = health_json_analytics now2"
      by (simp only: parse_handleHealthCheck_analytics option.inject prod.inject)
    with assms show False
      by (simp only: health_json_analytics_inj)
  qed
  show "handleSpendingAnalysis now1 \<noteq> handleSpendingAnalysis now2"
  proof
    assume "handleSpendingAnalysis now1 = handleSpendingAnalysis now2"
    then have "parse_response (handleSpendingAnalysis now1) = parse_response (handleSpendingAnalysis now2)"
      by simp
    then have "spending_analysis_json now1 = spending_analysis_json now2"
      by (simp only: parse_handleSpendingAnalysis option.inject prod.inject)
    with assms show False
      by (simp only: spending_analysis_json_inj)
  qed
  show "handleTrends now1 \<noteq> handleTrends now2"
  proof
    assume "handleTrends now1 = handleTrends now2"
    then have "parse_response (handleTrends now1) = parse_response (handleTrends now2)"
      by simp
    then have "trends_json now1 = trends_json now2"
      by (simp only: parse_handleTrends option.inject prod.inject)
    with assms show False
      by (simp only: trends_json_inj)
  qed
  show "handlePredictions now1 \<noteq> handlePredictions now2"
  proof
    assume "handlePredictions now1 = handlePredictions now2"
    then have "parse_response (handlePredictions now1) = parse_response (handlePredictions now2)"
      by simp
    then have "predictions_json now1 = predictions_json now2"
      by (simp only: parse_handlePredictions option.inject prod.inject)
    with assms show False
      by (simp only: predictions_json_inj)
  qed
qed

lemma route_reporting_range:
  "route_reporting req \<in> {handleHealthCheck_reporting, handleRootRequest_reporting, not_found_reporting}"
  by (simp add: route_reporting_def)


lemma take_before: "n \<le> length l \<Longrightarrow> take n (l @ c # z) = take n l"
  by simp

lemma take_beyond: "\<not> n \<le> length l \<Longrightarrow> take n (l @ c # z) = l @ c # take (n - Suc (length l)) z"
  by (simp add: take_Cons')

lemma request_tokens_take_line:
  assumes "is_token m" and "is_token pa" and "is_token v" and "isspace c"
  shows "request_tokens (take n ((m @ '' '' @ pa @ '' '' @ v) @ c # x))
         = request_tokens (take n ((m @ '' '' @ pa @ '' '' @ v) @ c # y))"
proof (cases "n \<le> length (m @ '' '' @ pa @ '' '' @ v)")
  case True
  then show ?thesis
    by (simp only: take_before)
next
  case False
  have "request_tokens ((m @ '' '' @ pa @ '' '' @ v) @ c # z) = (m, pa, v)" for z
    using request_tokens_line[OF assms, of z] by simp
  then show ?thesis
    by (simp only: take_beyond[OF False])
qed

lemma handleClient_same_line:
  assumes "is_token m" and "is_token pa" and "is_token v"
  shows "handleClient now (ReadData (m @ '' '' @ pa @ '' '' @ v @ CRLF @ rest1)) so fd p
         = handleClient now (ReadData (m @ '' '' @ pa @ '' '' @ v @ CRLF @ rest2)) so fd p"
proof -
  have shape: "m @ '' '' @ pa @ '' '' @ v @ CRLF @ z = (m @ '' '' @ pa @ '' '' @ v) @ CR # LF # z" for z
    by (simp add: CRLF_def)
  have tokens: "request_tokens (buffered (m @ '' '' @ pa @ '' '' @ v @ CRLF @ rest1))
        = request_tokens (buffered (m @ '' '' @ pa @ '' '' @ v @ CRLF @ rest2))"
    unfolding buffered_def shape using assms isspace_simps(2) by (rule request_tokens_take_line)
  have e: "handleClient now (ReadData (m @ '' '' @ pa @ '' '' @ v @ CRLF @ z)) so fd p
           = (case request_tokens (buffered (m @ '' '' @ pa @ '' '' @ v @ CRLF @ z)) of
              (method, path, version) \<Rightarrow>
                (if so = SendSigpipe
                 then p\<lparr>cout := cout p @ ''Request: '' @ method @ '' '' @ path @ [LF],
                        sent := sent p @ [(fd, route_analytics now path)],
                        killed_by := Some SIGPIPE\<rparr>
                 else p\<lparr>cout := cout p @ ''Request: '' @ method @ '' '' @ path @ [LF],
                        sent := sent p @ [(fd, route_analytics now path)],
                        closed := closed p @ [fd]\<rparr>))" for z
    by (rule handleClient_data) simp
  show ?thesis
    by (simp only: e tokens)
qed

lemma serve_reporting_same:
  assumes "sublist ''GET /health'' (request_reporting r1) = sublist ''GET /health'' (request_reporting r2)"
    and "sublist ''GET /'' (request_reporting r1) = sublist ''GET /'' (request_reporting r2)"
  shows "serve_reporting fd r1 so p = serve_reporting fd r2 so p"
  using assms by (simp add: serve_reporting_def Let_def route_reporting_sublist)


lemma request_get_health:
  "request_reporting (ReadData (''GET /health HTTP/1.1'' @ CRLF @ CRLF)) = ''GET /health HTTP/1.1'' @ CRLF @ CRLF"
  by (simp add: request_reporting_data c_string_def buffered_def CRLF_def CR_def LF_def NUL_def)

section \<open>The claims\<close>

text \<open>
  C1 (amended). Analytics Engine: a request of at least one byte whose path token (the
  second token of the bytes stored by \<open>read\<close>) is none of the five known paths is answered
  with the response of \<open>handle404\<close>; that response has the status line
  \<open>HTTP/1.1 404 Not Found\<close> and as its body the JSON error object, which names each known
  path. Reporting Engine: a request string that holds no \<open>GET /\<close> is answered with the
  status line \<open>HTTP/1.1 404 Not Found\<close>, a content length of 0 and an empty body.
\<close>

theorem C1_not_found:
  "(d \<noteq> [] \<and> fst (snd (request_tokens (buffered d))) \<notin> set known_paths_analytics \<longrightarrow>
      sent (handleClient now (ReadData d) so fd p) = sent p @ [(fd, handle404)])
   \<and> parse_response handle404 =
       Some ([''HTTP/1.1 404 Not Found'', ''Content-Type: application/json'',
              ''Content-Length: 127'', ''Access-Control-Allow-Origin: *''], not_found_json)
   \<and> list_all (\<lambda>path. sublist ([CHR 0x22] @ path @ [CHR 0x22]) not_found_json) known_paths_analytics
   \<and> (\<not> sublist ''GET /'' (request_reporting r) \<longrightarrow>
        sent (serve_reporting fd r so p) = sent p @ [(fd, not_found_reporting)])
   \<and> parse_response not_found_reporting = Some ([''HTTP/1.1 404 Not Found'', ''Content-Length: 0''], [])"
proof -
  have a: "sent (handleClient now (ReadData d) so fd p) = sent p @ [(fd, handle404)]"
    if "d \<noteq> []" and "fst (snd (request_tokens (buffered d))) \<notin> set known_paths_analytics"
    using that by (simp add: sent_handleClient_data route_analytics_unknown)
  have "\<not> sublist ''GET /health'' q" if "\<not> sublist ''GET /'' q" for q :: string
  proof
    assume "sublist ''GET /health'' q"
    moreover have "sublist ''GET /'' ''GET /health''"
      by (simp add: sublist_find_str find_str_def)
    ultimately have "sublist ''GET /'' q"
      by (rule sublist_order.order_trans[rotated])
    with that show False by simp
  qed
  then have b: "sent (serve_reporting fd r so p) = sent p @ [(fd, not_found_reporting)]"
    if "\<not> sublist ''GET /'' (request_reporting r)"
    using that by (simp add: sent_serve_reporting route_reporting_sublist)
  show ?thesis
    using a b parse_handle404_literal not_found_json_lists_paths parse_not_found_reporting
    by blast
qed

text \<open>
  C1, witness: \<open>GET /nope\<close> sent to the Analytics Engine and \<open>POST /nope\<close> sent to the
  Reporting Engine.
\<close>

theorem C1_not_found_witness:
  "sent (handleClient [] (ReadData (''GET /nope HTTP/1.1'' @ CRLF @ CRLF)) SendOK 4 initial) = [(4, handle404)]
   \<and> sent (serve_reporting 4 (ReadData (''POST /nope HTTP/1.1'' @ CRLF @ CRLF)) SendOK initial)
       = [(4, not_found_reporting)]"
proof -
  have h1: "''GET /nope HTTP/1.1'' @ CRLF @ CRLF \<noteq> []
            \<and> fst (snd (request_tokens (buffered (''GET /nope HTTP/1.1'' @ CRLF @ CRLF)))) \<notin> set known_paths_analytics"
    by (simp only: tokens_get_nope fst_conv snd_conv) (simp add: known_paths_analytics_def CRLF_def)
  have h2: "\<not> sublist ''GET /'' (request_reporting (ReadData (''POST /nope HTTP/1.1'' @ CRLF @ CRLF)))"
    by (simp only: request_post_nope) (simp add: sublist_find_str find_str_def CRLF_def CR_def LF_def)
  have s: "sent initial = []"
    by (simp add: initial_def)
  from h1 h2 C1_not_found[of "''GET /nope HTTP/1.1'' @ CRLF @ CRLF" "[]" SendOK 4 initial "ReadData (''POST /nope HTTP/1.1'' @ CRLF @ CRLF)"]
  show ?thesis
    by (simp only: s append_Nil simp_thms)
qed

text \<open>
  C1 as stated fails in the Reporting Engine: \<open>GET /nope\<close> names no known path and is
  answered with the root response, status 200; and where the engine does answer 404
  (\<open>POST /nope\<close>), the body is empty, not a JSON error object.
\<close>

theorem C1_counterexample:
  "sent (serve_reporting 4 (ReadData (''GET /nope HTTP/1.1'' @ CRLF @ CRLF)) SendOK initial)
     = [(4, handleRootRequest_reporting)]
   \<and> status_of handleRootRequest_reporting = Some ''HTTP/1.1 200 OK''
   \<and> sent (serve_reporting 4 (ReadData (''POST /nope HTTP/1.1'' @ CRLF @ CRLF)) SendOK initial)
       = [(4, not_found_reporting)]
   \<and> body_of not_found_reporting = Some []"
proof -
  have "route_reporting (''GET /nope HTTP/1.1'' @ CRLF @ CRLF) = handleRootRequest_reporting"
    by (simp add: route_reporting_def find_str_def CRLF_def CR_def LF_def)
  moreover have "route_reporting (''POST /nope HTTP/1.1'' @ CRLF @ CRLF) = not_found_reporting"
    by (simp add: route_reporting_def find_str_def CRLF_def CR_def LF_def)
  moreover have "status_of handleRootRequest_reporting = Some ''HTTP/1.1 200 OK''"
    by (simp add: status_of_def parse_handleRootRequest_reporting)
  moreover have "body_of not_found_reporting = Some []"
    by (simp add: body_of_def parse_not_found_reporting)
  ultimately show ?thesis
    by (simp only: sent_serve_reporting request_get_nope request_post_nope) (simp add: initial_def)
qed

text \<open>
  C2 (amended). Analytics Engine: a request of at least one byte whose path token is a
  known path, whatever its method, is answered with status line \<open>HTTP/1.1 200 OK\<close> and, as
  body, exactly the JSON text the route table gives for that path, with the timestamp of
  the moment in it where the text has one. Reporting Engine: a request string that holds
  \<open>GET /health\<close> is answered 200 with the health text; one that holds \<open>GET /\<close> and no
  \<open>GET /health\<close> is answered 200 with the root text.
\<close>

theorem C2_known_paths:
  "(d \<noteq> [] \<and> request_tokens (buffered d) = (method, path, version)
      \<and> map_of (route_table_analytics now) path = Some json \<longrightarrow>
      sent (handleClient now (ReadData d) so fd p) = sent p @ [(fd, route_analytics now path)]
      \<and> parse_response (route_analytics now path) =
          Some ([''HTTP/1.1 200 OK'', ''Content-Type: application/json'',
                 ''Content-Length: '' @ show_nat (length json), ''Access-Control-Allow-Origin: *''], json))
   \<and> map fst (route_table_analytics now) = known_paths_analytics
   \<and> (sublist ''GET /health'' (request_reporting r) \<longrightarrow>
        sent (serve_reporting fd r so p) = sent p @ [(fd, handleHealthCheck_reporting)])
   \<and> parse_response handleHealthCheck_reporting =
        Some ([''HTTP/1.1 200 OK'', ''Content-Type: application/json'',
               ''Content-Length: 67'', ''Access-Control-Allow-Origin: *''], health_json_reporting)
   \<and> (\<not> sublist ''GET /health'' (request_reporting r) \<and> sublist ''GET /'' (request_reporting r) \<longrightarrow>
        sent (serve_reporting fd r so p) = sent p @ [(fd, handleRootRequest_reporting)])
   \<and> parse_response handleRootRequest_reporting =
        Some ([''HTTP/1.1 200 OK'', ''Content-Type: application/json'',
               ''Content-Length: 144'', ''Access-Control-Allow-Origin: *''], root_json_reporting)"
proof -
  have a: "sent (handleClient now (ReadData d) so fd p) = sent p @ [(fd, route_analytics now path)]"
    if "d \<noteq> []" and "request_tokens (buffered d) = (method, path, version)"
    using that by (rule sent_handleClient_tokens)
  have b: "parse_response (route_analytics now path) =
          Some ([''HTTP/1.1 200 OK'', ''Content-Type: application/json'',
                 ''Content-Length: '' @ show_nat (length json), ''Access-Control-Allow-Origin: *''], json)"
    if "map_of (route_table_analytics now) path = Some json"
    using that by (rule route_analytics_known)
  have c: "sent (serve_reporting fd r so p) = sent p @ [(fd, handleHealthCheck_reporting)]"
    if "sublist ''GET /health'' (request_reporting r)"
    using that by (simp add: sent_serve_reporting route_reporting_sublist)
  have d: "sent (serve_reporting fd r so p) = sent p @ [(fd, handleRootRequest_reporting)]"
    if "\<not> sublist ''GET /health'' (request_reporting r)" and "sublist ''GET /'' (request_reporting r)"
    using that by (simp add: sent_serve_reporting route_reporting_sublist)
  show ?thesis
    using a b c d route_table_paths parse_health_reporting_literal parse_root_reporting_literal
    by blast
qed

text \<open>
  C2, witness: \<open>GET /health\<close> sent to the Analytics Engine; \<open>GET /health\<close> and \<open>GET /\<close> sent
  to the Reporting Engine.
\<close>

theorem C2_known_paths_witness:
  "sent (handleClient ''Wed Jun 30 21:49:08 1993'' (ReadData (''GET /health HTTP/1.1'' @ CRLF @ CRLF)) SendOK 4 initial)
     = [(4, handleHealthCheck_analytics ''Wed Jun 30 21:49:08 1993'')]
   \<and> parse_response (handleHealthCheck_analytics ''Wed Jun 30 21:49:08 1993'') =
        Some ([''HTTP/1.1 200 OK'', ''Content-Type: application/json'',
               ''Content-Length: '' @ show_nat (length (health_json_analytics ''Wed Jun 30 21:49:08 1993'')),
               ''Access-Control-Allow-Origin: *''], health_json_analytics ''Wed Jun 30 21:49:08 1993'')
   \<and> sent (serve_reporting 4 (ReadData (''GET /health HTTP/1.1'' @ CRLF @ CRLF)) SendOK initial)
       = [(4, handleHealthCheck_reporting)]
   \<and> sent (serve_reporting 4 (ReadData (''GET / HTTP/1.1'' @ CRLF @ CRLF)) SendOK initial)
       = [(4, handleRootRequest_reporting)]"
proof -
  let ?now = "''Wed Jun 30 21:49:08 1993''"
  let ?d = "''GET /health HTTP/1.1'' @ CRLF @ CRLF"
  let ?r = "ReadData (''GET / HTTP/1.1'' @ CRLF @ CRLF)"
  have h1: "?d \<noteq> []"
    by simp
  have h2: "map_of (route_table_analytics ?now) ''/health'' = Some (health_json_analytics ?now)"
    by (simp add: route_table_analytics_def)
  have h3: "\<not> sublist ''GET /health'' (request_reporting ?r) \<and> sublist ''GET /'' (request_reporting ?r)"
    by (simp only: request_get_root) (simp add: sublist_find_str find_str_def CRLF_def CR_def LF_def)
  have h4: "sublist ''GET /health'' (request_reporting (ReadData ?d))"
    by (simp only: request_get_health) (simp add: sublist_find_str find_str_def CRLF_def CR_def LF_def)
  have r: "route_analytics ?now ''/health'' = handleHealthCheck_analytics ?now"
    by (simp add: route_analytics_def)
  have s: "sent initial = []"
    by (simp add: initial_def)
  from h1 h2 h3 h4 tokens_get_health
    C2_known_paths[of ?d "''GET''" "''/health''" "''HTTP/1.1''" ?now "health_json_analytics ?now" SendOK 4 initial ?r]
    C2_known_paths[of ?d "''GET''" "''/health''" "''HTTP/1.1''" ?now "health_json_analytics ?now" SendOK 4 initial "ReadData ?d"]
  show ?thesis
    by (simp only: r s append_Nil simp_thms)
qed

text \<open>
  C2 as stated fails in the Reporting Engine: a \<open>GET\<close> request for the known path \<open>/\<close>
  that carries \<open>GET /health\<close> in a header is answered with the health text, not with the
  text of \<open>/\<close>.
\<close>

theorem C2_counterexample:
  "sent (serve_reporting 4
          (ReadData (''GET / HTTP/1.1'' @ CRLF @ ''X-Note: GET /health'' @ CRLF @ CRLF)) SendOK initial)
     = [(4, handleHealthCheck_reporting)]
   \<and> body_of handleHealthCheck_reporting = Some health_json_reporting
   \<and> health_json_reporting \<noteq> root_json_reporting"
proof -
  have "route_reporting (''GET / HTTP/1.1'' @ CRLF @ ''X-Note: GET /health'' @ CRLF @ CRLF)
          = handleHealthCheck_reporting"
    by (simp add: route_reporting_def find_str_def CRLF_def CR_def LF_def)
  moreover have "body_of handleHealthCheck_reporting = Some health_json_reporting"
    by (simp add: body_of_def parse_handleHealthCheck_reporting)
  moreover have "health_json_reporting \<noteq> root_json_reporting"
    by (simp add: health_json_reporting_def root_json_reporting_def)
  ultimately show ?thesis
    by (simp only: sent_serve_reporting request_get_root_note) (simp add: initial_def)
qed

text \<open>
  C3, the code at \<open>GET /reports\<close>: the Reporting Engine has no handler for the path. The
  request matches \<open>GET /\<close> and is answered with the root response, whose body is the root
  text; that same text announces \<open>/reports\<close> as an endpoint that generates reports.
\<close>

theorem C3_reports_gets_root:
  \<open>sent (serve_reporting 4 (ReadData (''GET /reports HTTP/1.1'' @ CRLF @ CRLF)) SendOK initial)
     = [(4, handleRootRequest_reporting)]
   \<and> body_of handleRootRequest_reporting = Some root_json_reporting
   \<and> sublist ''"/reports":"Generate reports"'' root_json_reporting\<close>
proof -
  have "route_reporting (''GET /reports HTTP/1.1'' @ CRLF @ CRLF) = handleRootRequest_reporting"
    by (simp add: route_reporting_def find_str_def CRLF_def CR_def LF_def)
  moreover have "body_of handleRootRequest_reporting = Some root_json_reporting"
    by (simp add: body_of_def parse_handleRootRequest_reporting)
  moreover have \<open>sublist ''"/reports":"Generate reports"'' root_json_reporting\<close>
    by (simp add: root_json_reporting_def sublist_find_str find_str_def)
  ultimately show ?thesis
    by (simp only: sent_serve_reporting request_get_reports) (simp add: initial_def)
qed

text \<open>
  C4 (amended). Every response that either engine sends, over any run of \<open>main\<close>, is a status
  line, the header \<open>Content-Type: application/json\<close>, a \<open>Content-Length\<close> header whose number
  is the byte length of the body, the header \<open>Access-Control-Allow-Origin: *\<close>, an empty
  line and the body, with one exception: the 404 response of the Reporting Engine, which
  is a status line, \<open>Content-Length: 0\<close>, an empty line and no body.
\<close>

theorem C4_response_shape:
  "list_all (\<lambda>(fd, resp). full_envelope resp) (sent (snd (main_analytics env events)))
   \<and> list_all (\<lambda>(fd, resp). full_envelope resp \<or> resp = not_found_reporting)
        (sent (snd (main_reporting env events)))
   \<and> parse_response not_found_reporting = Some ([''HTTP/1.1 404 Not Found'', ''Content-Length: 0''], [])"
proof -
  have "list_all (\<lambda>(fd, resp). full_envelope resp) (sent (snd (main_analytics env events)))"
    by (rule main_analytics_sent) (simp add: full_envelope_route_analytics)
  moreover have "list_all (\<lambda>(fd, resp). full_envelope resp \<or> resp = not_found_reporting)
        (sent (snd (main_reporting env events)))"
    by (rule main_reporting_sent) (simp add: route_reporting_envelope)
  ultimately show ?thesis
    using parse_not_found_reporting by blast
qed

text \<open>
  C4, witness: a run of each engine with one connection; the response sent has the full
  shape.
\<close>

theorem C4_response_shape_witness:
  "sent (snd (main_analytics good_env [Accept 4 (ReadData (''GET /nope HTTP/1.1'' @ CRLF @ CRLF)) SendOK []]))
     = [(4, handle404)]
   \<and> full_envelope handle404
   \<and> sent (snd (main_reporting good_env [Accept 5 (ReadData (''GET /health HTTP/1.1'' @ CRLF @ CRLF)) SendOK []]))
     = [(5, handleHealthCheck_reporting)]
   \<and> full_envelope handleHealthCheck_reporting"
proof -
  let ?ea = "[Accept 4 (ReadData (''GET /nope HTTP/1.1'' @ CRLF @ CRLF)) SendOK []]"
  let ?er = "[Accept 5 (ReadData (''GET /health HTTP/1.1'' @ CRLF @ CRLF)) SendOK []]"
  have ma: "main_analytics good_env es =
           accept_loop_analytics es (initial\<lparr>server_fd := 3, cout := banner_analytics 8080\<rparr>)" for es
    using main_analytics_setup_ok[of good_env es] by (simp add: good_env_def)
  have mr: "main_reporting good_env es =
           accept_loop_reporting es
             (initial\<lparr>server_fd := 3, cout := ''Reporting Engine listening on port 8080'' @ [LF]\<rparr>)" for es
    using main_reporting_setup_ok[of good_env es] by (simp add: good_env_def)
  define da where "da = ''GET /nope HTTP/1.1'' @ CRLF @ CRLF"
  define dr where "dr = ''GET /health HTTP/1.1'' @ CRLF @ CRLF"
  have "route_analytics [] ''/nope'' = handle404"
    by (simp add: route_analytics_def)
  then have ha: "sent (handleClient [] (ReadData da) SendOK 4 q) = sent q @ [(4, handle404)]" for q
    unfolding da_def using sent_handleClient_tokens[OF _ tokens_get_nope, of "[]" SendOK 4 q] by simp
  have "route_reporting (''GET /health HTTP/1.1'' @ CRLF @ CRLF) = handleHealthCheck_reporting"
    by (simp add: route_reporting_def find_str_def CRLF_def CR_def LF_def)
  then have hr: "sent (serve_reporting 5 (ReadData dr) SendOK q) = sent q @ [(5, handleHealthCheck_reporting)]" for q
    unfolding dr_def by (simp only: sent_serve_reporting request_get_health)
  have "sent (snd (main_analytics good_env [Accept 4 (ReadData da) SendOK []])) = [(4, handle404)]"
    by (simp add: ma ha initial_def running_handleClient killed_by_handleClient Let_def)
  then have a: "sent (snd (main_analytics good_env ?ea)) = [(4, handle404)]"
    unfolding da_def .
  have "sent (snd (main_reporting good_env [Accept 5 (ReadData dr) SendOK []])) = [(5, handleHealthCheck_reporting)]"
    by (simp add: mr hr initial_def running_serve_reporting killed_by_serve_reporting Let_def)
  then have b: "sent (snd (main_reporting good_env ?er)) = [(5, handleHealthCheck_reporting)]"
    unfolding dr_def .
  have c: "handleHealthCheck_reporting \<noteq> not_found_reporting"
    using responses_reporting_distinct by simp
  from C4_response_shape[of good_env ?ea]
  have "list_all (\<lambda>(fd, resp). full_envelope resp) (sent (snd (main_analytics good_env ?ea)))"
    by (rule conjunct1)
  then have "full_envelope handle404"
    unfolding a by simp
  moreover from C4_response_shape[of good_env ?er]
  have "list_all (\<lambda>(fd, resp). full_envelope resp \<or> resp = not_found_reporting)
          (sent (snd (main_reporting good_env ?er)))"
    by blast
  then have "full_envelope handleHealthCheck_reporting"
    unfolding b using c by simp
  ultimately show ?thesis
    using a b by blast
qed

text \<open>
  C4 as stated fails for the 404 response of the Reporting Engine: it has neither the
  content type header nor the CORS header, and no body.
\<close>

theorem C4_counterexample:
  "sent (snd (main_reporting good_env [Accept 4 (ReadData (''POST /nope HTTP/1.1'' @ CRLF @ CRLF)) SendOK []]))
     = [(4, not_found_reporting)]
   \<and> \<not> full_envelope not_found_reporting
   \<and> parse_response not_found_reporting = Some ([''HTTP/1.1 404 Not Found'', ''Content-Length: 0''], [])"
proof -
  have "route_reporting (''POST /nope HTTP/1.1'' @ CRLF @ CRLF) = not_found_reporting"
    by (simp add: route_reporting_def find_str_def CRLF_def CR_def LF_def)
  then have "sent (serve_reporting 4 (ReadData (''POST /nope HTTP/1.1'' @ CRLF @ CRLF)) SendOK q) = sent q @ [(4, not_found_reporting)]" for q
    by (simp only: sent_serve_reporting request_post_nope)
  moreover have "main_reporting good_env es =
           accept_loop_reporting es
             (initial\<lparr>server_fd := 3, cout := ''Reporting Engine listening on port 8080'' @ [LF]\<rparr>)" for es
    using main_reporting_setup_ok[of good_env es] by (simp add: good_env_def)
  ultimately have "sent (snd (main_reporting good_env [Accept 4 (ReadData (''POST /nope HTTP/1.1'' @ CRLF @ CRLF)) SendOK []]))
     = [(4, not_found_reporting)]"
    by (simp add: initial_def running_serve_reporting killed_by_serve_reporting Let_def)
  then show ?thesis
    using not_full_envelope_not_found_reporting parse_not_found_reporting by blast
qed

text \<open>
  C5 (amended). Analytics Engine: two requests with the same request line (method, path
  and version, each a token, separated by single spaces and ended by CR LF) that differ
  only in what follows it leave the process in the same state when handled at the same
  clock reading and with the same outcome of \<open>send\<close>: the same log line, the same response,
  the same socket closed. Reporting Engine: the headers and the body take part in the
  choice; two requests get the same response when their request strings agree on whether
  \<open>GET /health\<close> occurs and on whether \<open>GET /\<close> occurs.
\<close>

theorem C5_headers_and_body:
  "(is_token m \<and> is_token pa \<and> is_token v \<longrightarrow>
      handleClient now (ReadData (m @ '' '' @ pa @ '' '' @ v @ CRLF @ rest1)) so fd p
      = handleClient now (ReadData (m @ '' '' @ pa @ '' '' @ v @ CRLF @ rest2)) so fd p)
   \<and> (sublist ''GET /health'' (request_reporting r1) = sublist ''GET /health'' (request_reporting r2)
        \<and> sublist ''GET /'' (request_reporting r1) = sublist ''GET /'' (request_reporting r2) \<longrightarrow>
      serve_reporting fd r1 so p = serve_reporting fd r2 so p)"
  using handleClient_same_line[of m pa v now rest1 so fd p rest2] serve_reporting_same[of r1 r2 fd so p]
  by blast

text \<open>
  C5, witness: two \<open>GET /trends\<close> requests with different headers and body sent to the
  Analytics Engine, two \<open>GET /\<close> requests with different headers sent to the Reporting
  Engine.
\<close>

theorem C5_headers_and_body_witness:
  "handleClient [] (ReadData (''GET'' @ '' '' @ ''/trends'' @ '' '' @ ''HTTP/1.1'' @ CRLF
                               @ (''Host: a'' @ CRLF @ CRLF))) SendOK 4 initial
   = handleClient [] (ReadData (''GET'' @ '' '' @ ''/trends'' @ '' '' @ ''HTTP/1.1'' @ CRLF
                               @ (''Host: b'' @ CRLF @ ''Content-Length: 4'' @ CRLF @ CRLF @ ''body''))) SendOK 4 initial
   \<and> serve_reporting 4 (ReadData (''GET / HTTP/1.1'' @ CRLF @ CRLF)) SendOK initial
     = serve_reporting 4 (ReadData (''GET / HTTP/1.1'' @ CRLF @ ''Host: a'' @ CRLF @ CRLF)) SendOK initial"
proof -
  let ?r1 = "ReadData (''GET / HTTP/1.1'' @ CRLF @ CRLF)"
  let ?r2 = "ReadData (''GET / HTTP/1.1'' @ CRLF @ ''Host: a'' @ CRLF @ CRLF)"
  have h1: "is_token ''GET'' \<and> is_token ''/trends'' \<and> is_token ''HTTP/1.1''"
    by (simp add: is_token_def isspace_def)
  have q1: "request_reporting ?r1 = ''GET / HTTP/1.1'' @ CRLF @ CRLF"
    by (simp add: request_reporting_data c_string_def buffered_def CRLF_def CR_def LF_def NUL_def)
  have q2: "request_reporting ?r2 = ''GET / HTTP/1.1'' @ CRLF @ ''Host: a'' @ CRLF @ CRLF"
    by (simp add: request_reporting_data c_string_def buffered_def CRLF_def CR_def LF_def NUL_def)
  have h2: "sublist ''GET /health'' (request_reporting ?r1) = sublist ''GET /health'' (request_reporting ?r2)
        \<and> sublist ''GET /'' (request_reporting ?r1) = sublist ''GET /'' (request_reporting ?r2)"
    by (simp only: q1 q2) (simp add: sublist_find_str find_str_def CRLF_def CR_def LF_def)
  from h1 h2
    C5_headers_and_body[of "''GET''" "''/trends''" "''HTTP/1.1''" "[]" "''Host: a'' @ CRLF @ CRLF" SendOK 4 initial
      "''Host: b'' @ CRLF @ ''Content-Length: 4'' @ CRLF @ CRLF @ ''body''" ?r1 ?r2]
  show ?thesis
    by blast
qed

text \<open>
  C5 as stated fails in the Reporting Engine: two requests with the request line
  \<open>POST /submit HTTP/1.1\<close> and different bodies get different responses, the 404 response
  and the health response.
\<close>

theorem C5_counterexample:
  "sent (serve_reporting 4 (ReadData (''POST /submit HTTP/1.1'' @ CRLF @ CRLF @ ''a=1'')) SendOK initial)
     = [(4, not_found_reporting)]
   \<and> sent (serve_reporting 4 (ReadData (''POST /submit HTTP/1.1'' @ CRLF @ CRLF @ ''GET /health'')) SendOK initial)
     = [(4, handleHealthCheck_reporting)]
   \<and> not_found_reporting \<noteq> handleHealthCheck_reporting"
proof -
  have q1: "request_reporting (ReadData (''POST /submit HTTP/1.1'' @ CRLF @ CRLF @ ''a=1''))
            = ''POST /submit HTTP/1.1'' @ CRLF @ CRLF @ ''a=1''"
    by (simp add: request_reporting_data c_string_def buffered_def CRLF_def CR_def LF_def NUL_def)
  have q2: "request_reporting (ReadData (''POST /submit HTTP/1.1'' @ CRLF @ CRLF @ ''GET /health''))
            = ''POST /submit HTTP/1.1'' @ CRLF @ CRLF @ ''GET /health''"
    by (simp add: request_reporting_data c_string_def buffered_def CRLF_def CR_def LF_def NUL_def)
  have "route_reporting (''POST /submit HTTP/1.1'' @ CRLF @ CRLF @ ''a=1'') = not_found_reporting"
    by (simp add: route_reporting_def find_str_def CRLF_def CR_def LF_def)
  moreover have "route_reporting (''POST /submit HTTP/1.1'' @ CRLF @ CRLF @ ''GET /health'')
                 = handleHealthCheck_reporting"
    by (simp add: route_reporting_def find_str_def CRLF_def CR_def LF_def)
  moreover have "not_found_reporting \<noteq> handleHealthCheck_reporting"
    using responses_reporting_distinct by auto
  ultimately show ?thesis
    by (simp only: sent_serve_reporting q1 q2) (simp add: initial_def)
qed

text \<open>
  C6. When set-up fails (\<open>socket\<close> returns a negative descriptor, or \<open>bind\<close> or \<open>listen\<close> a
  negative result), \<open>main\<close> of either engine ends with exit status 1; a failed \<open>socket\<close> is
  not caught by the test of its result against 0, but by the next checked call on the
  descriptor. When set-up succeeds and a signal reaches the accept loop of a process that
  is alive, the process exits with status 0; a process is alive as long as no \<open>send\<close> of
  its own has raised \<open>SIGPIPE\<close>. No run has an exit status other than 0 and 1; a run whose
  events are used up, or whose process was killed, has none.
\<close>

theorem C6_exit_status:
  "(socket_ret env < 0 \<or> bind_ret env < 0 \<or> listen_ret env < 0 \<longrightarrow>
      fst (main_analytics env events) = Some 1 \<and> fst (main_reporting env events) = Some 1)
   \<and> (0 < socket_ret env \<and> setsockopt_ret env = 0 \<and> 0 \<le> bind_ret env \<and> 0 \<le> listen_ret env
        \<and> Signal signum \<in> set events \<and> killed_by (snd (main_analytics env events)) = None \<longrightarrow>
      fst (main_analytics env events) = Some 0)
   \<and> (0 < socket_ret env \<and> 0 \<le> bind_ret env \<and> 0 \<le> listen_ret env
        \<and> Signal signum \<in> set events \<and> killed_by (snd (main_reporting env events)) = None \<longrightarrow>
      fst (main_reporting env events) = Some 0)
   \<and> ((\<forall>fd r now. Accept fd r SendSigpipe now \<notin> set events) \<longrightarrow>
      killed_by (snd (main_analytics env events)) = None
      \<and> killed_by (snd (main_reporting env events)) = None)
   \<and> fst (main_analytics env events) \<in> {None, Some 0, Some 1}
   \<and> fst (main_reporting env events) \<in> {None, Some 0, Some 1}"
proof -
  have run: "running (initial\<lparr>server_fd := socket_ret env, cout := c\<rparr>)" for c
    by (simp add: initial_def)
  have a: "fst (main_analytics env events) = Some 0"
    if "0 < socket_ret env" "setsockopt_ret env = 0" "0 \<le> bind_ret env" "0 \<le> listen_ret env"
      "Signal signum \<in> set events" "killed_by (snd (main_analytics env events)) = None"
    using that run
    by (simp add: main_analytics_setup_ok accept_loop_analytics_signal)
  have b: "fst (main_reporting env events) = Some 0"
    if "0 < socket_ret env" "0 \<le> bind_ret env" "0 \<le> listen_ret env"
      "Signal signum \<in> set events" "killed_by (snd (main_reporting env events)) = None"
    using that run
    by (simp add: main_reporting_setup_ok accept_loop_reporting_signal)
  show ?thesis
    using a b main_analytics_setup_failed[of env events] main_reporting_setup_failed[of env events]
      main_analytics_not_killed[of events env] main_reporting_not_killed[of events env]
      main_analytics_status[of env events] main_reporting_status[of env events]
    by blast
qed

text \<open>
  C6, witness: an environment in which every set-up call fails, and a good environment
  with a failed read followed by \<open>SIGTERM\<close>.
\<close>

theorem C6_exit_status_witness:
  "fst (main_analytics \<lparr>socket_ret = - 1, setsockopt_ret = - 1, bind_ret = - 1, listen_ret = - 1\<rparr> []) = Some 1
   \<and> fst (main_reporting \<lparr>socket_ret = - 1, setsockopt_ret = - 1, bind_ret = - 1, listen_ret = - 1\<rparr> []) = Some 1
   \<and> killed_by (snd (main_analytics good_env [Accept 4 ReadError SendOK [], Signal 15])) = None
   \<and> killed_by (snd (main_reporting good_env [Accept 4 ReadError SendOK [], Signal 15])) = None
   \<and> fst (main_analytics good_env [Accept 4 ReadError SendOK [], Signal 15]) = Some 0
   \<and> fst (main_reporting good_env [Accept 4 ReadError SendOK [], Signal 15]) = Some 0"
proof -
  let ?bad = "\<lparr>socket_ret = - 1, setsockopt_ret = - 1, bind_ret = - 1, listen_ret = - 1\<rparr>"
  have h1: "socket_ret ?bad < 0 \<or> bind_ret ?bad < 0 \<or> listen_ret ?bad < 0"
    by simp
  let ?ev = "[Accept 4 ReadError SendOK [], Signal 15]"
  have h2: "0 < socket_ret good_env" "setsockopt_ret good_env = 0" "0 \<le> bind_ret good_env"
    "0 \<le> listen_ret good_env" "Signal 15 \<in> set ?ev"
    by (simp_all add: good_env_def)
  have h3: "\<forall>fd r now. Accept fd r SendSigpipe now \<notin> set ?ev"
    by simp
  note bad = C6_exit_status[of ?bad "[]" 15]
  note good = C6_exit_status[of good_env ?ev 15]
  from bad[THEN conjunct1] h1
  have c1: "fst (main_analytics ?bad []) = Some 1 \<and> fst (main_reporting ?bad []) = Some 1"
    by (rule mp)
  from good[THEN conjunct2, THEN conjunct2, THEN conjunct2, THEN conjunct1] h3
  have alive: "killed_by (snd (main_analytics good_env ?ev)) = None
               \<and> killed_by (snd (main_reporting good_env ?ev)) = None"
    by (rule mp)
  have c2: "fst (main_analytics good_env ?ev) = Some 0"
    by (rule good[THEN conjunct2, THEN conjunct1, THEN mp]) (intro conjI h2 alive[THEN conjunct1])
  have c3: "fst (main_reporting good_env ?ev) = Some 0"
    by (rule good[THEN conjunct2, THEN conjunct2, THEN conjunct1, THEN mp])
      (intro conjI h2(1,3,4,5) alive[THEN conjunct2])
  from c1 alive c2 c3 show ?thesis
    by (intro conjI) (elim conjE, assumption)+
qed

text \<open>
  C7, the code at a connection that its client resets. The trace: an \<open>accept\<close> that fails,
  then a connection on descriptor 4 that the client has reset (\<open>read\<close> fails, and a \<open>send\<close>
  on it raises \<open>SIGPIPE\<close>), then a connection on descriptor 5 that asks for \<open>/health\<close>. The
  failed \<open>accept\<close> is logged by both engines and both go on. The Reporting Engine does not
  look at what \<open>read\<close> returned: it passes its 404 response to \<open>send\<close> on descriptor 4 and is
  killed by \<open>SIGPIPE\<close>, with nothing logged about the read, descriptor 4 not closed and
  descriptor 5 never served. The Analytics Engine, which tests the result of \<open>read\<close>, closes
  descriptor 4 without a send, logs nothing about the read either, and serves descriptor 5.
\<close>

theorem C7_failed_read_kills_reporting:
  "main_reporting good_env
     [Accept (- 1) ReadError SendOK [], Accept 4 ReadError SendSigpipe [],
      Accept 5 (ReadData (''GET /health HTTP/1.1'' @ CRLF @ CRLF)) SendOK []]
   = (None,
      \<lparr>running = True, server_fd = 3,
        cout = ''Reporting Engine listening on port 8080'' @ [LF],
        cerr = ''Accept failed'' @ [LF],
        sent = [(4, not_found_reporting)], closed = [], killed_by = Some SIGPIPE\<rparr>)
   \<and> main_analytics good_env
     [Accept (- 1) ReadError SendOK [], Accept 4 ReadError SendSigpipe [],
      Accept 5 (ReadData (''GET /health HTTP/1.1'' @ CRLF @ CRLF)) SendOK []]
   = (None,
      \<lparr>running = True, server_fd = 3,
        cout = banner_analytics 8080 @ ''Request: GET /health'' @ [LF],
        cerr = ''Accept failed'' @ [LF],
        sent = [(5, handleHealthCheck_analytics [])], closed = [4, 5], killed_by = None\<rparr>)"
proof -
  define dh where "dh = ''GET /health HTTP/1.1'' @ CRLF @ CRLF"
  have ma: "main_analytics good_env es =
           accept_loop_analytics es (initial\<lparr>server_fd := 3, cout := banner_analytics 8080\<rparr>)" for es
    using main_analytics_setup_ok[of good_env es] by (simp add: good_env_def)
  have mr: "main_reporting good_env es =
           accept_loop_reporting es
             (initial\<lparr>server_fd := 3, cout := ''Reporting Engine listening on port 8080'' @ [LF]\<rparr>)" for es
    using main_reporting_setup_ok[of good_env es] by (simp add: good_env_def)
  have "dh \<noteq> []"
    by (simp add: dh_def)
  moreover have "request_tokens (buffered dh) = (''GET'', ''/health'', ''HTTP/1.1'')"
    unfolding dh_def by (rule tokens_get_health)
  moreover have "route_analytics [] ''/health'' = handleHealthCheck_analytics []"
    by (simp add: route_analytics_def)
  ultimately have hc: "handleClient [] (ReadData dh) SendOK 5 q =
      q\<lparr>cout := cout q @ ''Request: GET /health'' @ [LF],
        sent := sent q @ [(5, handleHealthCheck_analytics [])],
        closed := closed q @ [5]\<rparr>" for q
    by (simp add: handleClient_data)
  have "main_reporting good_env
     [Accept (- 1) ReadError SendOK [], Accept 4 ReadError SendSigpipe [], Accept 5 (ReadData dh) SendOK []]
   = (None,
      \<lparr>running = True, server_fd = 3,
        cout = ''Reporting Engine listening on port 8080'' @ [LF],
        cerr = ''Accept failed'' @ [LF],
        sent = [(4, not_found_reporting)], closed = [], killed_by = Some SIGPIPE\<rparr>)"
    by (simp add: mr initial_def serve_reporting_error Let_def)
  moreover have "main_analytics good_env
     [Accept (- 1) ReadError SendOK [], Accept 4 ReadError SendSigpipe [], Accept 5 (ReadData dh) SendOK []]
   = (None,
      \<lparr>running = True, server_fd = 3,
        cout = banner_analytics 8080 @ ''Request: GET /health'' @ [LF],
        cerr = ''Accept failed'' @ [LF],
        sent = [(5, handleHealthCheck_analytics [])], closed = [4, 5], killed_by = None\<rparr>)"
    by (simp add: ma initial_def handleClient_error hc Let_def)
  ultimately show ?thesis
    unfolding dh_def by (rule conjI)
qed

text \<open>
  C8. The Reporting Engine never reads the clock: two runs of \<open>main\<close> over events that differ
  only in the clock reading end in the same state, with the same bytes sent, and every
  response is one of three constants. The Analytics Engine puts the timestamp into its
  bodies: the health, spending analysis, trends and predictions responses differ whenever
  the timestamps differ.
\<close>

theorem C8_timestamp_in_one_service:
  "(list_all2 same_but_clock es1 es2 \<longrightarrow> main_reporting env es1 = main_reporting env es2)
   \<and> route_reporting req \<in> {handleHealthCheck_reporting, handleRootRequest_reporting, not_found_reporting}
   \<and> (getCurrentTimestamp now1 \<noteq> getCurrentTimestamp now2 \<longrightarrow>
        handleHealthCheck_analytics now1 \<noteq> handleHealthCheck_analytics now2
        \<and> handleSpendingAnalysis now1 \<noteq> handleSpendingAnalysis now2
        \<and> handleTrends now1 \<noteq> handleTrends now2
        \<and> handlePredictions now1 \<noteq> handlePredictions now2)"
  using main_reporting_clock[of es1 es2 env] route_reporting_range[of req] handlers_differ[of now1 now2]
  by blast

text \<open>
  C8, witness: the same \<open>GET /health\<close> request handled at two different times.
\<close>

theorem C8_timestamp_in_one_service_witness:
  "main_reporting good_env
     [Accept 4 (ReadData (''GET /health HTTP/1.1'' @ CRLF @ CRLF)) SendOK (''Wed Jun 30 21:49:08 1993'' @ [LF])]
   = main_reporting good_env
     [Accept 4 (ReadData (''GET /health HTTP/1.1'' @ CRLF @ CRLF)) SendOK (''Thu Jul  1 08:00:00 1993'' @ [LF])]
   \<and> handleHealthCheck_analytics (''Wed Jun 30 21:49:08 1993'' @ [LF])
       \<noteq> handleHealthCheck_analytics (''Thu Jul  1 08:00:00 1993'' @ [LF])
   \<and> handlePredictions (''Wed Jun 30 21:49:08 1993'' @ [LF])
       \<noteq> handlePredictions (''Thu Jul  1 08:00:00 1993'' @ [LF])"
proof -
  let ?n1 = "''Wed Jun 30 21:49:08 1993'' @ [LF]"
  let ?n2 = "''Thu Jul  1 08:00:00 1993'' @ [LF]"
  let ?r = "ReadData (''GET /health HTTP/1.1'' @ CRLF @ CRLF)"
  have h1: "list_all2 same_but_clock [Accept 4 ?r SendOK ?n1] [Accept 4 ?r SendOK ?n2]"
    by simp
  have h2: "getCurrentTimestamp ?n1 \<noteq> getCurrentTimestamp ?n2"
    by (simp add: getCurrentTimestamp_def)
  from h1 h2 C8_timestamp_in_one_service[of "[Accept 4 ?r SendOK ?n1]" "[Accept 4 ?r SendOK ?n2]" good_env "[]" ?n1 ?n2]
  show ?thesis
    by blast
qed



text \<open>
  C10 (amended). In the Reporting Engine the response is chosen by substring search, with a
  fixed precedence, over the request string: the bytes that \<open>read\<close> stored (at most 4095)
  up to the first zero byte, and the empty string when \<open>read\<close> fails. A request string that
  holds \<open>GET /health\<close> anywhere gets the health response; otherwise one that holds \<open>GET /\<close>
  anywhere gets the root response; otherwise the response is the 404 one. The three
  responses differ from each other.
\<close>

theorem C10_reporting_routing:
  "sent (serve_reporting fd r so p) =
     sent p @ [(fd, if sublist ''GET /health'' (request_reporting r) then handleHealthCheck_reporting
                    else if sublist ''GET /'' (request_reporting r) then handleRootRequest_reporting
                    else not_found_reporting)]
   \<and> request_reporting (ReadData d) = takeWhile (\<lambda>c. c \<noteq> NUL) (take 4095 d)
   \<and> request_reporting ReadError = []
   \<and> distinct [handleHealthCheck_reporting, handleRootRequest_reporting, not_found_reporting]"
proof -
  have "request_reporting (ReadData d) = takeWhile (\<lambda>c. c \<noteq> NUL) (take 4095 d)"
    by (simp only: request_reporting_data c_string_def buffered_def)
  then show ?thesis
    by (simp only: sent_serve_reporting route_reporting_sublist request_reporting_error
        responses_reporting_distinct simp_thms)
qed

text \<open>
  C10 as stated fails: a buffer that holds \<open>GET /health\<close> after a zero byte gets the 404
  response, since the request string ends at the first zero byte of the buffer.
\<close>

theorem C10_counterexample:
  "sublist ''GET /health'' (NUL # ''GET /health HTTP/1.1'' @ CRLF @ CRLF)
   \<and> sent (serve_reporting 4 (ReadData (NUL # ''GET /health HTTP/1.1'' @ CRLF @ CRLF)) SendOK initial)
       = [(4, not_found_reporting)]"
proof -
  have "sublist ''GET /health'' (NUL # ''GET /health HTTP/1.1'' @ CRLF @ CRLF)"
    by (simp add: sublist_find_str find_str_def NUL_def)
  moreover have "request_reporting (ReadData (NUL # ''GET /health HTTP/1.1'' @ CRLF @ CRLF)) = []"
    by (simp add: request_reporting_data c_string_def buffered_def)
  moreover have "route_reporting [] = not_found_reporting"
    by (simp add: route_reporting_def find_str_def)
  ultimately show ?thesis
    by (simp add: sent_serve_reporting initial_def)
qed

end
